theory Spec2Isabelle
  imports Main
begin

section \<open>The type checker of the ChocoPy compiler (type-check.ts)\<close>

text \<open>
  The checker is a TypeScript module. Three things of JavaScript are visible in what it
  computes and are therefore part of the embedding:
  \<^item> a \<^verbatim>\<open>Type\<close> is an object, and \<^verbatim>\<open>===\<close> on objects compares identities. The
    source itself relies on this: \<^verbatim>\<open>equalType\<close> is
    \<^verbatim>\<open>t1 === t2 || (t1.tag === "class" && t2.tag === "class" && t1.name === t2.name)\<close>,
    whose second disjunct would be redundant for a structural \<^verbatim>\<open>===\<close>. A type is
    modelled as an object identity together with its shape, so that HOL equality on it is
    \<^verbatim>\<open>===\<close>;
  \<^item> a \<^verbatim>\<open>Map\<close> is a mutable object that is shared by reference: the environments hold
    references into a store of maps, \<^verbatim>\<open>new Map(m)\<close> allocates a copy and
    \<^verbatim>\<open>m.set(k, v)\<close> updates the store;
  \<^item> a \<^verbatim>\<open>throw\<close> unwinds to the caller, and reading a property of \<^verbatim>\<open>undefined\<close>
    throws a native \<^verbatim>\<open>TypeError\<close>: every function returns an error or a value,
    together with the store as it is at that moment.
\<close>

subsection \<open>Types (ast.ts, utils.ts)\<close>

text \<open>
  Modelled from the spec: ast.ts is not among the sources. Every node carries a source
  location (section 3), which the checker only copies into nodes and diagnostics; a type
  is one of the closed set of section 3, numeric, boolean, none or a named class.
\<close>

type_synonym Location = nat

datatype Shape = Num | Bool | NoneT | Class string

datatype Type = Obj (ident: nat) (shape: Shape)

text \<open>
  Modelled from the spec: utils.ts is not among the sources. Its constants \<^verbatim>\<open>NUM\<close>,
  \<^verbatim>\<open>BOOL\<close> and \<^verbatim>\<open>NONE\<close> are the three type objects of the primitive types of the
  spec's closed set of types (section 3), created once when the module is loaded.
\<close>

definition NUM :: Type where "NUM = Obj 0 Num"
definition BOOL :: Type where "BOOL = Obj 1 Bool"
definition NONE :: Type where "NONE = Obj 2 NoneT"

text \<open>
  Modelled from the spec: the \<^verbatim>\<open>tag\<close> field of a type object; "none" and "class" are
  the tags the source compares with, "number" and "bool" stand for the tags of the two
  other types of ast.ts, which is not among the sources.
\<close>

definition tag :: "Type \<Rightarrow> string" where
  "tag t = (case shape t of Num \<Rightarrow> ''number'' | Bool \<Rightarrow> ''bool''
             | NoneT \<Rightarrow> ''none'' | Class n \<Rightarrow> ''class'')"

text \<open>\<^verbatim>\<open>t.tag === "class" ? t.name : t.tag\<close>, the description of a type in a diagnostic.\<close>

definition descr :: "Type \<Rightarrow> string" where
  "descr t = (case shape t of Class n \<Rightarrow> n | _ \<Rightarrow> tag t)"

text \<open>
  Modelled from the spec: the literals of section 4.2 and the operators of section 4.3,
  which are the members of the enums \<^verbatim>\<open>BinOp\<close> and \<^verbatim>\<open>UniOp\<close> that the source names.
\<close>

datatype Literal = LitNum int | LitBool bool | LitNone

datatype BinOp = Plus | Minus | Mul | IDiv | Mod | Eq | Neq | Lte | Gte | Lt | Gt | Is | And | Or

datatype UniOp = Neg | Not

text \<open>\<^verbatim>\<open>BinOp[op]\<close> and \<^verbatim>\<open>UniOp[op]\<close>: the name of an enum member.\<close>

fun BinOp_name :: "BinOp \<Rightarrow> string" where
  "BinOp_name Plus = ''Plus''"
| "BinOp_name Minus = ''Minus''"
| "BinOp_name Mul = ''Mul''"
| "BinOp_name IDiv = ''IDiv''"
| "BinOp_name Mod = ''Mod''"
| "BinOp_name Eq = ''Eq''"
| "BinOp_name Neq = ''Neq''"
| "BinOp_name Lte = ''Lte''"
| "BinOp_name Gte = ''Gte''"
| "BinOp_name Lt = ''Lt''"
| "BinOp_name Gt = ''Gt''"
| "BinOp_name Is = ''Is''"
| "BinOp_name And = ''And''"
| "BinOp_name Or = ''Or''"

fun UniOp_name :: "UniOp \<Rightarrow> string" where
  "UniOp_name Neg = ''Neg''"
| "UniOp_name Not = ''Not''"

subsection \<open>Syntax trees before and after checking (ast.ts)\<close>

text \<open>
  Modelled from the spec: the node kinds of ast.ts are the tags that the cases of
  \<^verbatim>\<open>tcExpr\<close> and \<^verbatim>\<open>tcStmt\<close> have, with the fields that these cases read.
  A node of the parser carries no annotation (spec, section 3), so that
  \<^verbatim>\<open>{ a: t, ...expr }\<close> and \<^verbatim>\<open>{ ...expr, a: t }\<close> both give a node annotated with
  \<^verbatim>\<open>t\<close>. The checked trees are the nodes the checker builds: every one has its
  annotation \<^verbatim>\<open>a\<close>. \<^verbatim>\<open>EOther\<close> stands for an expression of any tag that
  \<^verbatim>\<open>tcExpr\<close> has no case for.
\<close>

datatype Expr =
    ELiteral Location Literal
  | EBinop Location BinOp Expr Expr
  | EUniop Location UniOp Expr
  | EId Location string
  | EBuiltin1 Location string Expr
  | EBuiltin2 Location string Expr Expr
  | ECall Location string "Expr list"
  | ELookup Location Expr string
  | EMethodCall Location Expr string "Expr list"
  | EOther Location string

datatype TExpr =
    TLiteral Type Location Literal
  | TBinop Type Location BinOp TExpr TExpr
  | TUniop Type Location UniOp TExpr
  | TId Type Location string
  | TBuiltin1 Type Location string TExpr
  | TBuiltin2 Type Location string TExpr TExpr
  | TCall Type Location string "Expr list"
  | TConstruct Type Location string
  | TLookup Type Location TExpr string
  | TMethodCall Type Location TExpr string "TExpr list"

fun expr_a :: "TExpr \<Rightarrow> Type" where
  "expr_a (TLiteral t l v) = t"
| "expr_a (TBinop t l op x y) = t"
| "expr_a (TUniop t l op x) = t"
| "expr_a (TId t l n) = t"
| "expr_a (TBuiltin1 t l n x) = t"
| "expr_a (TBuiltin2 t l n x y) = t"
| "expr_a (TCall t l n xs) = t"
| "expr_a (TConstruct t l n) = t"
| "expr_a (TLookup t l x f) = t"
| "expr_a (TMethodCall t l x m xs) = t"

fun expr_loc :: "TExpr \<Rightarrow> Location" where
  "expr_loc (TLiteral t l v) = l"
| "expr_loc (TBinop t l op x y) = l"
| "expr_loc (TUniop t l op x) = l"
| "expr_loc (TId t l n) = l"
| "expr_loc (TBuiltin1 t l n x) = l"
| "expr_loc (TBuiltin2 t l n x y) = l"
| "expr_loc (TCall t l n xs) = l"
| "expr_loc (TConstruct t l n) = l"
| "expr_loc (TLookup t l x f) = l"
| "expr_loc (TMethodCall t l x m xs) = l"

fun expr_tag :: "TExpr \<Rightarrow> string" where
  "expr_tag (TLiteral t l v) = ''literal''"
| "expr_tag (TBinop t l op x y) = ''binop''"
| "expr_tag (TUniop t l op x) = ''uniop''"
| "expr_tag (TId t l n) = ''id''"
| "expr_tag (TBuiltin1 t l n x) = ''builtin1''"
| "expr_tag (TBuiltin2 t l n x y) = ''builtin2''"
| "expr_tag (TCall t l n xs) = ''call''"
| "expr_tag (TConstruct t l n) = ''construct''"
| "expr_tag (TLookup t l x f) = ''lookup''"
| "expr_tag (TMethodCall t l x m xs) = ''method-call''"

datatype Stmt =
    SAssignment Location
  | SAssign Location string Expr
  | SExpr Location Expr
  | SIf Location Expr "Stmt list" "Stmt list"
  | SReturn Location Expr
  | SWhile Location Expr "Stmt list"
  | SPass Location
  | SFieldAssign Location Expr string Expr

datatype TStmt =
    TAssign Type Location string TExpr
  | TExprStmt Type Location TExpr
  | TIf Type Location TExpr "TStmt list" "TStmt list"
  | TReturn Type Location TExpr
  | TWhile Type Location TExpr "TStmt list"
  | TPass Type Location
  | TFieldAssign Type Location TExpr string TExpr

fun stmt_a :: "TStmt \<Rightarrow> Type" where
  "stmt_a (TAssign t l n v) = t"
| "stmt_a (TExprStmt t l e) = t"
| "stmt_a (TIf t l c thn els) = t"
| "stmt_a (TReturn t l v) = t"
| "stmt_a (TWhile t l c b) = t"
| "stmt_a (TPass t l) = t"
| "stmt_a (TFieldAssign t l obj f v) = t"

record VarInit =
  vi_name :: string
  vi_type :: Type
  vi_value :: Literal
  vi_loc :: Location

record TVarInit =
  tvi_a :: Type
  tvi_init :: VarInit

record FunDef =
  fd_name :: string
  fd_parameters :: "(string \<times> Type) list"
  fd_ret :: Type
  fd_inits :: "VarInit list"
  fd_body :: "Stmt list"
  fd_loc :: Location

record TFunDef =
  tfd_a :: Type
  tfd_fun :: FunDef
  tfd_body :: "TStmt list"

record Class =
  cls_name :: string
  cls_fields :: "VarInit list"
  cls_methods :: "FunDef list"
  cls_loc :: Location

record TClass =
  tcls_a :: Type
  tcls_name :: string
  tcls_fields :: "TVarInit list"
  tcls_methods :: "TFunDef list"
  tcls_loc :: Location

record Program =
  inits :: "VarInit list"
  funs :: "FunDef list"
  classes_of :: "Class list"
  stmts :: "Stmt list"
  prog_loc :: Location

record TProgram =
  tp_a :: Type
  tp_inits :: "TVarInit list"
  tp_funs :: "TFunDef list"
  tp_classes :: "TClass list"
  tp_stmts :: "TStmt list"
  tp_loc :: Location

subsection \<open>Diagnostics (error.ts)\<close>

text \<open>
  Modelled from the spec: error.ts is not among the sources; these are the diagnostic
  kinds of section 6 under the names of the exceptions that the source constructs.
  The exceptions the checker throws, with the arguments it gives them, and
  \<^verbatim>\<open>JsTypeError\<close>, the native error of reading a property of \<^verbatim>\<open>undefined\<close>, which
  is none of the checker's diagnostics.
\<close>

datatype error =
    Exception string Location
  | NameError string Location
  | TypeMismatchError string string Location
  | ConditionTypeError string Location
  | SyntaxError string Location
  | UnsupportedOprandTypeError string "string list" Location
  | AttributeError string string Location
  | TypeError string Location
  | JsTypeError

subsection \<open>The store, and checking as a computation on it\<close>

type_synonym Signature = "Type list \<times> Type"

record heap =
  tmaps :: "nat \<Rightarrow> (string \<rightharpoonup> Type)"
  fmaps :: "nat \<Rightarrow> (string \<rightharpoonup> Signature)"
  cmaps :: "nat \<Rightarrow> (string \<rightharpoonup> (nat \<times> nat))"
  fresh :: nat

record GlobalTypeEnv =
  globals :: nat
  "functions" :: nat
  classes :: nat

record LocalTypeEnv =
  vars :: nat
  expectedRet :: Type
  topLevel :: bool

type_synonym 'a tc = "heap \<Rightarrow> (error + 'a) \<times> heap"

definition ret :: "'a \<Rightarrow> 'a tc" where
  "ret x = (\<lambda>h. (Inr x, h))"

definition throw :: "error \<Rightarrow> 'a tc" where
  "throw e = (\<lambda>h. (Inl e, h))"

definition bnd :: "'a tc \<Rightarrow> ('a \<Rightarrow> 'b tc) \<Rightarrow> 'b tc" where
  "bnd m f = (\<lambda>h. case m h of (Inl e, h') \<Rightarrow> (Inl e, h') | (Inr x, h') \<Rightarrow> f x h')"

text \<open>\<^verbatim>\<open>new Map(m)\<close> for the three kinds of map; \<^verbatim>\<open>new Map()\<close> copies the empty map.\<close>

definition new_tmap :: "(string \<rightharpoonup> Type) \<Rightarrow> nat tc" where
  "new_tmap m = (\<lambda>h. (Inr (fresh h),
     h\<lparr>tmaps := (tmaps h)(fresh h := m), fresh := Suc (fresh h)\<rparr>))"

definition new_fmap :: "(string \<rightharpoonup> Signature) \<Rightarrow> nat tc" where
  "new_fmap m = (\<lambda>h. (Inr (fresh h),
     h\<lparr>fmaps := (fmaps h)(fresh h := m), fresh := Suc (fresh h)\<rparr>))"

definition new_cmap :: "(string \<rightharpoonup> (nat \<times> nat)) \<Rightarrow> nat tc" where
  "new_cmap m = (\<lambda>h. (Inr (fresh h),
     h\<lparr>cmaps := (cmaps h)(fresh h := m), fresh := Suc (fresh h)\<rparr>))"

text \<open>Reading a whole map, \<^verbatim>\<open>m.has(k)\<close> with \<^verbatim>\<open>m.get(k)\<close>, and \<^verbatim>\<open>m.set(k, v)\<close>.\<close>

definition read_tmap :: "nat \<Rightarrow> (string \<rightharpoonup> Type) tc" where
  "read_tmap r = (\<lambda>h. (Inr (tmaps h r), h))"

definition read_fmap :: "nat \<Rightarrow> (string \<rightharpoonup> Signature) tc" where
  "read_fmap r = (\<lambda>h. (Inr (fmaps h r), h))"

definition read_cmap :: "nat \<Rightarrow> (string \<rightharpoonup> (nat \<times> nat)) tc" where
  "read_cmap r = (\<lambda>h. (Inr (cmaps h r), h))"

definition get_t :: "nat \<Rightarrow> string \<Rightarrow> Type option tc" where
  "get_t r k = (\<lambda>h. (Inr (tmaps h r k), h))"

definition get_f :: "nat \<Rightarrow> string \<Rightarrow> Signature option tc" where
  "get_f r k = (\<lambda>h. (Inr (fmaps h r k), h))"

definition get_c :: "nat \<Rightarrow> string \<Rightarrow> (nat \<times> nat) option tc" where
  "get_c r k = (\<lambda>h. (Inr (cmaps h r k), h))"

definition set_t :: "nat \<Rightarrow> string \<Rightarrow> Type \<Rightarrow> unit tc" where
  "set_t r k v = (\<lambda>h. (Inr (), h\<lparr>tmaps := (tmaps h)(r := (tmaps h r)(k \<mapsto> v))\<rparr>))"

definition set_f :: "nat \<Rightarrow> string \<Rightarrow> Signature \<Rightarrow> unit tc" where
  "set_f r k v = (\<lambda>h. (Inr (), h\<lparr>fmaps := (fmaps h)(r := (fmaps h r)(k \<mapsto> v))\<rparr>))"

definition set_c :: "nat \<Rightarrow> string \<Rightarrow> nat \<times> nat \<Rightarrow> unit tc" where
  "set_c r k v = (\<lambda>h. (Inr (), h\<lparr>cmaps := (cmaps h)(r := (cmaps h r)(k \<mapsto> v))\<rparr>))"

text \<open>
  Modelled from the spec: \<^verbatim>\<open>CLASS(name)\<close> of utils.ts, which is not among the sources,
  builds the type \<^verbatim>\<open>Class(name)\<close> of the spec's section 3: a new object
  \<^verbatim>\<open>{tag: "class", name}\<close>.
\<close>

definition CLASS :: "string \<Rightarrow> Type tc" where
  "CLASS n = (\<lambda>h. (Inr (Obj (fresh h) (Class n)), h\<lparr>fresh := Suc (fresh h)\<rparr>))"

text \<open>\<^verbatim>\<open>xs.forEach(f)\<close> and \<^verbatim>\<open>xs.map(f)\<close>, from left to right; a throw ends them.\<close>

primrec forEach :: "'a list \<Rightarrow> ('a \<Rightarrow> unit tc) \<Rightarrow> unit tc" where
  "forEach [] f = ret ()"
| "forEach (x # xs) f = bnd (f x) (\<lambda>_. forEach xs f)"

primrec mapM :: "('a \<Rightarrow> 'b tc) \<Rightarrow> 'a list \<Rightarrow> 'b list tc" where
  "mapM f [] = ret []"
| "mapM f (x # xs) = bnd (f x) (\<lambda>y. bnd (mapM f xs) (\<lambda>ys. ret (y # ys)))"

text \<open>\<^verbatim>\<open>xs.every((x, i) => p(x, i))\<close>.\<close>

definition every_i :: "('a \<Rightarrow> nat \<Rightarrow> bool) \<Rightarrow> 'a list \<Rightarrow> bool" where
  "every_i p xs = list_all (\<lambda>(x, i). p x i) (zip xs [0..<length xs])"

subsection \<open>Relations on types\<close>

definition equalType :: "Type \<Rightarrow> Type \<Rightarrow> bool" where
  "equalType t1 t2 = (t1 = t2 \<or>
     (case shape t1 of
        Class n1 \<Rightarrow> (case shape t2 of Class n2 \<Rightarrow> n1 = n2 | _ \<Rightarrow> False)
      | _ \<Rightarrow> False))"

definition isNoneOrClass :: "Type \<Rightarrow> bool" where
  "isNoneOrClass t = (tag t = ''none'' \<or> tag t = ''class'')"

definition isSubtype :: "GlobalTypeEnv \<Rightarrow> Type \<Rightarrow> Type \<Rightarrow> bool" where
  "isSubtype env t1 t2 = (equalType t1 t2 \<or> (tag t1 = ''none'' \<and> tag t2 = ''class''))"

definition isAssignable :: "GlobalTypeEnv \<Rightarrow> Type \<Rightarrow> Type \<Rightarrow> bool" where
  "isAssignable env t1 t2 = isSubtype env t1 t2"

definition join :: "GlobalTypeEnv \<Rightarrow> Type \<Rightarrow> Type \<Rightarrow> Type" where
  "join env t1 t2 = NONE"

fun tcLiteral :: "Literal \<Rightarrow> Type" where
  "tcLiteral (LitBool b) = BOOL"
| "tcLiteral (LitNum n) = NUM"
| "tcLiteral LitNone = NONE"

subsection \<open>Rendering numbers and type lists in messages\<close>

function show_nat :: "nat \<Rightarrow> string" where
  "show_nat n = (if n < 10 then [''0123456789'' ! n]
                 else show_nat (n div 10) @ [''0123456789'' ! (n mod 10)])"
  by pat_completeness auto
termination
  by (relation "measure (\<lambda>n. n)") auto

declare show_nat.simps [simp del]

fun join_comma :: "string list \<Rightarrow> string" where
  "join_comma [] = []"
| "join_comma [x] = x"
| "join_comma (x # y # ys) = x @ '','' @ join_comma (y # ys)"

definition toObject :: "Type list \<Rightarrow> string" where
  "toObject types = ''['' @ join_comma (map descr types) @ '']''"

subsection \<open>Environments\<close>

definition emptyGlobalTypeEnv :: "GlobalTypeEnv tc" where
  "emptyGlobalTypeEnv =
     bnd (new_tmap Map.empty) (\<lambda>g.
     bnd (new_fmap Map.empty) (\<lambda>f.
     bnd (new_cmap Map.empty) (\<lambda>c.
     ret \<lparr>globals = g, functions = f, classes = c\<rparr>)))"

definition emptyLocalTypeEnv :: "LocalTypeEnv tc" where
  "emptyLocalTypeEnv =
     bnd (new_tmap Map.empty) (\<lambda>v.
     ret \<lparr>vars = v, expectedRet = NONE, topLevel = True\<rparr>)"

text \<open>
  The store once the module is loaded: the three type objects of utils.ts, then
  \<^verbatim>\<open>defaultGlobalFunctions\<close> (object 3) with its five entries, the type object
  \<^verbatim>\<open>CLASS("object")\<close> of the entry of print (object 4), and the two empty maps of
  \<^verbatim>\<open>defaultTypeEnv\<close> (objects 5 and 6).
\<close>

definition defaultGlobalFunctions :: "string \<rightharpoonup> Signature" where
  "defaultGlobalFunctions =
     [''abs'' \<mapsto> ([NUM], NUM),
      ''max'' \<mapsto> ([NUM, NUM], NUM),
      ''min'' \<mapsto> ([NUM, NUM], NUM),
      ''pow'' \<mapsto> ([NUM, NUM], NUM),
      ''print'' \<mapsto> ([Obj 4 (Class ''object'')], NUM)]"

definition defaultTypeEnv :: GlobalTypeEnv where
  "defaultTypeEnv = \<lparr>globals = 5, functions = 3, classes = 6\<rparr>"

definition loaded :: heap where
  "loaded = \<lparr>tmaps = (\<lambda>r. Map.empty),
             fmaps = (\<lambda>r. Map.empty)(3 := defaultGlobalFunctions),
             cmaps = (\<lambda>r. Map.empty),
             fresh = 7\<rparr>"

definition augmentTEnv :: "GlobalTypeEnv \<Rightarrow> Program \<Rightarrow> GlobalTypeEnv tc" where
  "augmentTEnv env program =
     bnd (bnd (read_tmap (globals env)) new_tmap) (\<lambda>newGlobs.
     bnd (bnd (read_fmap (functions env)) new_fmap) (\<lambda>newFuns.
     bnd (bnd (read_cmap (classes env)) new_cmap) (\<lambda>newClasses.
     bnd (forEach (inits program) (\<lambda>init. set_t newGlobs (vi_name init) (vi_type init))) (\<lambda>_.
     bnd (forEach (funs program) (\<lambda>fn.
            set_f newFuns (fd_name fn) (map snd (fd_parameters fn), fd_ret fn))) (\<lambda>_.
     bnd (forEach (classes_of program) (\<lambda>cls.
            bnd (new_tmap Map.empty) (\<lambda>fields.
            bnd (new_fmap Map.empty) (\<lambda>methods.
            bnd (forEach (cls_fields cls) (\<lambda>field.
                   set_t fields (vi_name field) (vi_type field))) (\<lambda>_.
            bnd (forEach (cls_methods cls) (\<lambda>method.
                   set_f methods (fd_name method)
                     (map snd (fd_parameters method), fd_ret method))) (\<lambda>_.
            set_c newClasses (cls_name cls) (fields, methods))))))) (\<lambda>_.
     ret \<lparr>globals = newGlobs, functions = newFuns, classes = newClasses\<rparr>))))))"

subsection \<open>Initialisers and expressions\<close>

definition tcInit :: "GlobalTypeEnv \<Rightarrow> VarInit \<Rightarrow> TVarInit tc" where
  "tcInit env init =
     (let valTyp = tcLiteral (vi_value init) in
      if isAssignable env valTyp (vi_type init)
      then ret \<lparr>tvi_a = NONE, tvi_init = init\<rparr>
      else throw (TypeMismatchError (tag (vi_type init)) (tag valTyp) (vi_loc init)))"

text \<open>
  In the two builtin cases the signature is taken apart by a destructuring pattern: a
  missing parameter type is \<^verbatim>\<open>undefined\<close>, and every path on which it is then used
  reads its \<^verbatim>\<open>tag\<close>, a native TypeError. The diagnostic of the one-argument builtin
  describes the argument by \<^verbatim>\<open>tArg.tag\<close>, the tag of the expression, when its type is
  not a class.
  In the call case \<^verbatim>\<open>initArgs.length - 1\<close> is a JavaScript number and can be -1.
\<close>

fun tcExpr :: "GlobalTypeEnv \<Rightarrow> LocalTypeEnv \<Rightarrow> Expr \<Rightarrow> TExpr tc"
  and tcExprs :: "GlobalTypeEnv \<Rightarrow> LocalTypeEnv \<Rightarrow> Expr list \<Rightarrow> TExpr list tc" where
  "tcExpr env locals (ELiteral loc v) = ret (TLiteral (tcLiteral v) loc v)"
| "tcExpr env locals (EBinop loc op left right) =
     bnd (tcExpr env locals left) (\<lambda>tLeft.
     bnd (tcExpr env locals right) (\<lambda>tRight.
     let unsupported = throw (UnsupportedOprandTypeError (BinOp_name op)
                                [tag (expr_a tLeft), tag (expr_a tRight)] loc);
         arith = (if equalType (expr_a tLeft) NUM \<and> equalType (expr_a tRight) NUM
                  then ret (TBinop NUM loc op tLeft tRight) else unsupported);
         equality = (if equalType (expr_a tLeft) (expr_a tRight)
                     then ret (TBinop BOOL loc op tLeft tRight) else unsupported);
         relational = (if equalType (expr_a tLeft) NUM \<and> equalType (expr_a tRight) NUM
                       then ret (TBinop BOOL loc op tLeft tRight) else unsupported);
         logical = (if equalType (expr_a tLeft) BOOL \<and> equalType (expr_a tRight) BOOL
                    then ret (TBinop BOOL loc op tLeft tRight) else unsupported);
         identity = (if \<not> isNoneOrClass (expr_a tLeft) \<or> \<not> isNoneOrClass (expr_a tRight)
                     then unsupported else ret (TBinop BOOL loc op tLeft tRight))
     in case op of
          Plus \<Rightarrow> arith | Minus \<Rightarrow> arith | Mul \<Rightarrow> arith | IDiv \<Rightarrow> arith | Mod \<Rightarrow> arith
        | Eq \<Rightarrow> equality | Neq \<Rightarrow> equality
        | Lte \<Rightarrow> relational | Gte \<Rightarrow> relational | Lt \<Rightarrow> relational | Gt \<Rightarrow> relational
        | And \<Rightarrow> logical | Or \<Rightarrow> logical
        | Is \<Rightarrow> identity))"
| "tcExpr env locals (EUniop loc op expr) =
     bnd (tcExpr env locals expr) (\<lambda>tExpr.
     let tUni = TUniop (expr_a tExpr) loc op tExpr;
         unsupported = throw (UnsupportedOprandTypeError (UniOp_name op)
                                [tag (expr_a tExpr)] loc)
     in case op of
          Neg \<Rightarrow> (if equalType (expr_a tExpr) NUM then ret tUni else unsupported)
        | Not \<Rightarrow> (if equalType (expr_a tExpr) BOOL then ret tUni else unsupported))"
| "tcExpr env locals (EId loc name) =
     bnd (get_t (vars locals) name) (\<lambda>l.
     case l of
       Some t \<Rightarrow> ret (TId t loc name)
     | None \<Rightarrow>
         bnd (get_t (globals env) name) (\<lambda>g.
         case g of
           Some t \<Rightarrow> ret (TId t loc name)
         | None \<Rightarrow> throw (NameError name loc)))"
| "tcExpr env locals (EBuiltin1 loc name arg) =
     (if name = ''print''
      then bnd (tcExpr env locals arg) (\<lambda>tArg.
           ret (TBuiltin1 (expr_a tArg) loc name tArg))
      else
        bnd (get_f (functions env) name) (\<lambda>sig.
        case sig of
          Some (params, retTyp) \<Rightarrow>
            bnd (tcExpr env locals arg) (\<lambda>tArg.
            case params of
              [] \<Rightarrow> throw JsTypeError
            | expectedArgTyp # _ \<Rightarrow>
                if isAssignable env (expr_a tArg) expectedArgTyp
                then ret (TBuiltin1 retTyp loc name tArg)
                else throw (TypeMismatchError (descr expectedArgTyp)
                              (case shape (expr_a tArg) of
                                 Class n \<Rightarrow> n | _ \<Rightarrow> expr_tag tArg) loc))
        | None \<Rightarrow> throw (NameError name loc)))"
| "tcExpr env locals (EBuiltin2 loc name left right) =
     bnd (get_f (functions env) name) (\<lambda>sig.
     case sig of
       Some (params, retTyp) \<Rightarrow>
         bnd (tcExpr env locals left) (\<lambda>tLeftArg.
         bnd (tcExpr env locals right) (\<lambda>tRightArg.
         case params of
           leftTyp # rightTyp # _ \<Rightarrow>
             if isAssignable env leftTyp (expr_a tLeftArg)
                \<and> isAssignable env rightTyp (expr_a tRightArg)
             then ret (TBuiltin2 retTyp loc name tLeftArg tRightArg)
             else throw (TypeMismatchError (toObject [leftTyp, rightTyp])
                           (toObject [expr_a tLeftArg, expr_a tRightArg]) loc)
         | _ \<Rightarrow> throw JsTypeError))
     | None \<Rightarrow> throw (NameError name loc))"
| "tcExpr env locals (ECall loc name arguments) =
     bnd (get_c (classes env) name) (\<lambda>cls.
     case cls of
       Some (flds, methods) \<Rightarrow>
         bnd (CLASS name) (\<lambda>t.
         let tConstruct = TConstruct t loc name in
         bnd (get_f methods ''__init__'') (\<lambda>init.
         case init of
           Some (initArgs, initRet) \<Rightarrow>
             if int (length arguments) \<noteq> int (length initArgs) - 1
             then throw (TypeError (''__init__() takes '' @ show_nat (length initArgs)
                           @ '' positional arguments but ''
                           @ show_nat (length arguments + 1) @ '' were given'') loc)
             else if initRet \<noteq> NONE
             then throw (TypeError (''__init__() should return None, not ''
                           @ [CHR 0x27] @ descr initRet @ [CHR 0x27]) loc)
             else ret tConstruct
         | None \<Rightarrow> ret tConstruct))
     | None \<Rightarrow>
         bnd (get_f (functions env) name) (\<lambda>sig.
         case sig of
           Some (argTypes, retType) \<Rightarrow>
             bnd (tcExprs env locals arguments) (\<lambda>tArgs.
             if length argTypes = length arguments
                \<and> every_i (\<lambda>tArg i. expr_a tArg = argTypes ! i) tArgs
             then ret (TCall retType loc name arguments)
             else if length argTypes \<noteq> length arguments
             then throw (TypeError (name @ '' takes '' @ show_nat (length argTypes)
                           @ '' positional arguments but ''
                           @ show_nat (length arguments) @ '' were given'') loc)
             else throw (TypeMismatchError (toObject argTypes)
                           (toObject (map expr_a tArgs)) loc))
         | None \<Rightarrow> throw (NameError name loc)))"
| "tcExpr env locals (ELookup loc obj field) =
     bnd (tcExpr env locals obj) (\<lambda>tObj.
     case shape (expr_a tObj) of
       Class cname \<Rightarrow>
         bnd (get_c (classes env) cname) (\<lambda>cls.
         case cls of
           Some (flds, methods) \<Rightarrow>
             bnd (get_t flds field) (\<lambda>f.
             case f of
               Some t \<Rightarrow> ret (TLookup t loc tObj field)
             | None \<Rightarrow> throw (AttributeError cname field loc))
         | None \<Rightarrow> throw (NameError cname loc))
     | _ \<Rightarrow> throw (AttributeError (tag (expr_a tObj)) field loc))"
| "tcExpr env locals (EMethodCall loc obj method arguments) =
     bnd (tcExpr env locals obj) (\<lambda>tObj.
     bnd (tcExprs env locals arguments) (\<lambda>tArgs.
     case shape (expr_a tObj) of
       Class cname \<Rightarrow>
         bnd (get_c (classes env) cname) (\<lambda>cls.
         case cls of
           Some (flds, methods) \<Rightarrow>
             bnd (get_f methods method) (\<lambda>m.
             case m of
               Some (methodArgs, methodRet) \<Rightarrow>
                 let realArgs = tObj # tArgs in
                 if length methodArgs = length realArgs
                    \<and> every_i (\<lambda>argTyp i. isAssignable env (expr_a (realArgs ! i)) argTyp)
                         methodArgs
                 then ret (TMethodCall methodRet loc tObj method tArgs)
                 else if length methodArgs \<noteq> length realArgs
                 then throw (TypeError (method @ '' takes '' @ show_nat (length methodArgs)
                               @ '' positional arguments but ''
                               @ show_nat (length realArgs) @ '' were given'') loc)
                 else throw (TypeMismatchError (toObject methodArgs)
                               (toObject (map expr_a realArgs)) loc)
             | None \<Rightarrow> throw (AttributeError cname method loc))
         | None \<Rightarrow> throw (NameError cname loc))
     | _ \<Rightarrow> throw (AttributeError (tag (expr_a tObj)) method loc)))"
| "tcExpr env locals (EOther loc t) =
     throw (Exception ''unimplemented type checking for expr: [object Object]'' loc)"
| "tcExprs env locals [] = ret []"
| "tcExprs env locals (arg # args) =
     bnd (tcExpr env locals arg) (\<lambda>tArg.
     bnd (tcExprs env locals args) (\<lambda>tArgs.
     ret (tArg # tArgs)))"

subsection \<open>Statements and blocks\<close>

text \<open>
  \<^verbatim>\<open>tcBlock\<close> is \<^verbatim>\<open>stmts.map((stmt) => tcStmt(env, locals, stmt))\<close>. In the if case
  \<^verbatim>\<open>tThn[tThn.length - 1]\<close> is \<^verbatim>\<open>undefined\<close> for an empty list, and reading its
  \<^verbatim>\<open>a\<close> is a native TypeError; the condition's type is looked at after both branches.
  The message of the return case starts with the word return between the quotation marks
  U+2018 and U+2019, given here by their UTF-8 bytes.
\<close>

fun tcStmt :: "GlobalTypeEnv \<Rightarrow> LocalTypeEnv \<Rightarrow> Stmt \<Rightarrow> TStmt tc"
  and tcBlock :: "GlobalTypeEnv \<Rightarrow> LocalTypeEnv \<Rightarrow> Stmt list \<Rightarrow> TStmt list tc" where
  "tcStmt env locals (SAssignment loc) =
     throw (Exception ''Destructured assignment not implemented'' loc)"
| "tcStmt env locals (SAssign loc name val) =
     bnd (tcExpr env locals val) (\<lambda>tValExpr.
     bnd (get_t (vars locals) name) (\<lambda>l.
     bnd (case l of
            Some t \<Rightarrow> ret t
          | None \<Rightarrow>
              bnd (get_t (globals env) name) (\<lambda>g.
              case g of
                Some t \<Rightarrow> ret t
              | None \<Rightarrow> throw (NameError name loc))) (\<lambda>nameTyp.
     if \<not> isAssignable env (expr_a tValExpr) nameTyp
     then throw (TypeMismatchError (tag nameTyp) (tag (expr_a tValExpr)) loc)
     else ret (TAssign NONE loc name tValExpr))))"
| "tcStmt env locals (SExpr loc expr) =
     bnd (tcExpr env locals expr) (\<lambda>tExpr.
     ret (TExprStmt (expr_a tExpr) loc tExpr))"
| "tcStmt env locals (SIf loc cond thn els) =
     bnd (tcExpr env locals cond) (\<lambda>tCond.
     bnd (tcBlock env locals thn) (\<lambda>tThn.
     case tThn of
       [] \<Rightarrow> throw JsTypeError
     | _ # _ \<Rightarrow>
         let thnTyp = stmt_a (last tThn) in
         bnd (tcBlock env locals els) (\<lambda>tEls.
         case tEls of
           [] \<Rightarrow> throw JsTypeError
         | _ # _ \<Rightarrow>
             let elsTyp = stmt_a (last tEls) in
             if expr_a tCond \<noteq> BOOL
             then throw (ConditionTypeError (tag (expr_a tCond)) (expr_loc tCond))
             else if thnTyp \<noteq> elsTyp
             then throw (SyntaxError ''Types of then and else branches must match'' loc)
             else ret (TIf thnTyp loc tCond tThn tEls))))"
| "tcStmt env locals (SReturn loc val) =
     (if topLevel locals
      then throw (SyntaxError ([CHR 0xE2, CHR 0x80, CHR 0x98] @ ''return''
                    @ [CHR 0xE2, CHR 0x80, CHR 0x99] @ '' outside of functions'') loc)
      else
        bnd (tcExpr env locals val) (\<lambda>tRet.
        if \<not> isAssignable env (expr_a tRet) (expectedRet locals)
        then throw (TypeMismatchError (descr (expectedRet locals)) (descr (expr_a tRet)) loc)
        else ret (TReturn (expr_a tRet) loc tRet)))"
| "tcStmt env locals (SWhile loc cond body) =
     bnd (tcExpr env locals cond) (\<lambda>tCond.
     bnd (tcBlock env locals body) (\<lambda>tBody.
     if \<not> equalType (expr_a tCond) BOOL
     then throw (ConditionTypeError (tag (expr_a tCond)) (expr_loc tCond))
     else ret (TWhile NONE loc tCond tBody)))"
| "tcStmt env locals (SPass loc) = ret (TPass NONE loc)"
| "tcStmt env locals (SFieldAssign loc obj field val) =
     bnd (tcExpr env locals obj) (\<lambda>tObj.
     bnd (tcExpr env locals val) (\<lambda>tVal.
     case shape (expr_a tObj) of
       Class cname \<Rightarrow>
         bnd (get_c (classes env) cname) (\<lambda>cls.
         case cls of
           None \<Rightarrow> throw (NameError cname loc)
         | Some (flds, methods) \<Rightarrow>
             bnd (get_t flds field) (\<lambda>f.
             case f of
               None \<Rightarrow> throw (AttributeError cname field loc)
             | Some fieldTyp \<Rightarrow>
                 if \<not> isAssignable env (expr_a tVal) fieldTyp
                 then throw (TypeMismatchError (tag fieldTyp) (tag (expr_a tVal)) loc)
                 else ret (TFieldAssign NONE loc tObj field tVal)))
     | _ \<Rightarrow> throw (AttributeError (tag (expr_a tObj)) field loc)))"
| "tcBlock env locals [] = ret []"
| "tcBlock env locals (stmt # rest) =
     bnd (tcStmt env locals stmt) (\<lambda>tStmt.
     bnd (tcBlock env locals rest) (\<lambda>tStmts.
     ret (tStmt # tStmts)))"

subsection \<open>Definitions, classes and programs\<close>

definition tcDef :: "GlobalTypeEnv \<Rightarrow> FunDef \<Rightarrow> TFunDef tc" where
  "tcDef env fn =
     bnd emptyLocalTypeEnv (\<lambda>locals0.
     let locals = locals0\<lparr>expectedRet := fd_ret fn, topLevel := False\<rparr> in
     bnd (forEach (fd_parameters fn) (\<lambda>p. set_t (vars locals) (fst p) (snd p))) (\<lambda>_.
     bnd (forEach (fd_inits fn) (\<lambda>init.
            bnd (tcInit env init) (\<lambda>tInit.
            set_t (vars locals) (vi_name init) (vi_type (tvi_init tInit))))) (\<lambda>_.
     bnd (tcBlock env locals (fd_body fn)) (\<lambda>tBody.
     ret \<lparr>tfd_a = NONE, tfd_fun = fn, tfd_body = tBody\<rparr>))))"

definition tcClass :: "GlobalTypeEnv \<Rightarrow> Class \<Rightarrow> TClass tc" where
  "tcClass env cls =
     bnd (mapM (tcInit env) (cls_fields cls)) (\<lambda>tFields.
     bnd (mapM (tcDef env) (cls_methods cls)) (\<lambda>tMethods.
     ret \<lparr>tcls_a = NONE, tcls_name = cls_name cls, tcls_fields = tFields,
          tcls_methods = tMethods, tcls_loc = cls_loc cls\<rparr>))"

text \<open>
  The loop at the end of \<^verbatim>\<open>tc\<close> sets, for every key of \<^verbatim>\<open>locals.vars\<close>, that key of
  \<^verbatim>\<open>newEnv.globals\<close> to its value in \<^verbatim>\<open>locals.vars\<close>.
\<close>

definition copy_locals :: "LocalTypeEnv \<Rightarrow> GlobalTypeEnv \<Rightarrow> unit tc" where
  "copy_locals locals newEnv = (\<lambda>h. (Inr (),
     h\<lparr>tmaps := (tmaps h)(globals newEnv :=
          tmaps h (globals newEnv) ++ tmaps h (vars locals))\<rparr>))"

definition tc :: "GlobalTypeEnv \<Rightarrow> Program \<Rightarrow> (TProgram \<times> GlobalTypeEnv) tc" where
  "tc env program =
     bnd emptyLocalTypeEnv (\<lambda>locals.
     bnd (augmentTEnv env program) (\<lambda>newEnv.
     bnd (mapM (tcInit env) (inits program)) (\<lambda>tInits.
     bnd (mapM (tcDef newEnv) (funs program)) (\<lambda>tDefs.
     bnd (mapM (tcClass newEnv) (classes_of program)) (\<lambda>tClasses.
     bnd (tcBlock newEnv locals (stmts program)) (\<lambda>tBody.
     let lastTyp = (if tBody \<noteq> [] then stmt_a (last tBody) else NONE) in
     bnd (copy_locals locals newEnv) (\<lambda>_.
     ret (\<lparr>tp_a = lastTyp, tp_inits = tInits, tp_funs = tDefs, tp_classes = tClasses,
           tp_stmts = tBody, tp_loc = prog_loc program\<rparr>, newEnv))))))))"

subsection \<open>Well-formed inputs and the stores of the examples\<close>

text \<open>
  A type object of a primitive type is canonical when it is the object of utils.ts:
  the checker compares with \<^verbatim>\<open>NUM\<close>, \<^verbatim>\<open>BOOL\<close> and \<^verbatim>\<open>NONE\<close> by identity.
\<close>

definition canonical :: "Type \<Rightarrow> bool" where
  "canonical t = (case shape t of
     Num \<Rightarrow> t = NUM | Bool \<Rightarrow> t = BOOL | NoneT \<Rightarrow> t = NONE | Class n \<Rightarrow> True)"

text \<open>
  The top-level scope that \<^verbatim>\<open>tc\<close> creates first on the loaded store (its map is
  object 7), the store at that moment, and that store with a class C without fields and
  methods entered in the classes of \<^verbatim>\<open>defaultTypeEnv\<close> (its two maps are objects 8
  and 9).
\<close>

definition top_locals :: LocalTypeEnv where
  "top_locals = \<lparr>vars = 7, expectedRet = NONE, topLevel = True\<rparr>"

definition entered :: heap where
  "entered = loaded\<lparr>tmaps := (tmaps loaded)(7 := Map.empty), fresh := 8\<rparr>"

definition with_C :: heap where
  "with_C = entered\<lparr>cmaps := (cmaps entered)(6 := [''C'' \<mapsto> (8, 9)]), fresh := 10\<rparr>"

subsection \<open>What a computation leaves unchanged\<close>

text \<open>
  A computation only reads when it changes no map of the store (it may create type
  objects). It preserves the objects below \<open>n\<close> when, started in a store that has them
  as \<open>h0\<close> has them, it ends in such a store, with a result that satisfies \<open>Q\<close>.
\<close>

definition same_maps :: "heap \<Rightarrow> heap \<Rightarrow> bool" where
  "same_maps h h' = (tmaps h' = tmaps h \<and> fmaps h' = fmaps h \<and> cmaps h' = cmaps h
                     \<and> fresh h \<le> fresh h')"

definition reads :: "'a tc \<Rightarrow> bool" where
  "reads m = (\<forall>h. same_maps h (snd (m h)))"

definition kept :: "nat \<Rightarrow> heap \<Rightarrow> heap \<Rightarrow> bool" where
  "kept n h0 h = (n \<le> fresh h \<and>
     (\<forall>a<n. tmaps h a = tmaps h0 a \<and> fmaps h a = fmaps h0 a \<and> cmaps h a = cmaps h0 a))"

definition pres :: "nat \<Rightarrow> heap \<Rightarrow> 'a tc \<Rightarrow> ('a \<Rightarrow> bool) \<Rightarrow> bool" where
  "pres n h0 m Q = (\<forall>h. kept n h0 h \<longrightarrow>
     kept n h0 (snd (m h)) \<and> (\<forall>x. fst (m h) = Inr x \<longrightarrow> Q x))"

section \<open>Properties\<close>

subsection \<open>Running the checker symbolically\<close>

lemmas monad_defs = bnd_def ret_def throw_def get_t_def get_f_def get_c_def CLASS_def Let_def

lemmas eval_defs = monad_defs tc_def tcDef_def tcClass_def tcInit_def augmentTEnv_def
  emptyLocalTypeEnv_def copy_locals_def new_tmap_def new_fmap_def new_cmap_def
  read_tmap_def read_fmap_def read_cmap_def set_t_def set_f_def set_c_def
  defaultTypeEnv_def loaded_def defaultGlobalFunctions_def NUM_def BOOL_def NONE_def
  isAssignable_def isSubtype_def equalType_def tag_def descr_def toObject_def every_i_def
  isNoneOrClass_def

lemma equalType_prim [simp]:
  "equalType t NUM = (t = NUM)" "equalType t BOOL = (t = BOOL)" "equalType t NONE = (t = NONE)"
  by (auto simp: equalType_def NUM_def BOOL_def NONE_def split: Shape.splits)

lemma tcBlock_length: "tcBlock env locals ss h = (Inr ts, h') \<Longrightarrow> length ts = length ss"
  by (induction ss arbitrary: h ts h') (auto simp: monad_defs split: prod.splits sum.splits)

lemma tcExprs_length: "tcExprs env locals es h = (Inr ts, h') \<Longrightarrow> length ts = length es"
  by (induction es arbitrary: h ts h') (auto simp: monad_defs split: prod.splits sum.splits)

lemma emptyLocalTypeEnv_loaded: "emptyLocalTypeEnv loaded = (Inr top_locals, entered)"
  apply (simp add: emptyLocalTypeEnv_def bnd_def new_tmap_def ret_def)
  apply (simp add: top_locals_def entered_def)
  apply (simp add: loaded_def)
  done

lemma isl_bnd: "isl (fst (m h)) \<Longrightarrow> isl (fst (bnd m f h))"
  by (cases "m h") (auto simp: bnd_def isl_def)

lemma bnd_new_tmap:
  "bnd (new_tmap m) k h =
     k (fresh h) (h\<lparr>tmaps := (tmaps h)(fresh h := m), fresh := Suc (fresh h)\<rparr>)"
  by (simp add: bnd_def new_tmap_def)

lemma bnd_read_new_tmap:
  "bnd (bnd (read_tmap r) new_tmap) k h =
     k (fresh h) (h\<lparr>tmaps := (tmaps h)(fresh h := tmaps h r), fresh := Suc (fresh h)\<rparr>)"
  by (simp add: bnd_def new_tmap_def read_tmap_def)

lemma bnd_read_new_fmap:
  "bnd (bnd (read_fmap r) new_fmap) k h =
     k (fresh h) (h\<lparr>fmaps := (fmaps h)(fresh h := fmaps h r), fresh := Suc (fresh h)\<rparr>)"
  by (simp add: bnd_def new_fmap_def read_fmap_def)

lemma bnd_read_new_cmap:
  "bnd (bnd (read_cmap r) new_cmap) k h =
     k (fresh h) (h\<lparr>cmaps := (cmaps h)(fresh h := cmaps h r), fresh := Suc (fresh h)\<rparr>)"
  by (simp add: bnd_def new_cmap_def read_cmap_def)

lemma bnd_emptyLocal:
  "bnd (bnd (new_tmap m) (\<lambda>v. ret (g v))) k h =
     k (g (fresh h)) (h\<lparr>tmaps := (tmaps h)(fresh h := m), fresh := Suc (fresh h)\<rparr>)"
  by (simp add: bnd_def new_tmap_def ret_def)

lemma forEach_set_t:
  "forEach xs (\<lambda>i. set_t r (f i) (g i)) h =
     (Inr (), h\<lparr>tmaps := (tmaps h)(r := foldl (\<lambda>m i. m(f i \<mapsto> g i)) (tmaps h r) xs)\<rparr>)"
  by (induction xs arbitrary: h) (simp_all add: bnd_def ret_def set_t_def)

lemma bnd_forEach_set_t:
  "bnd (forEach xs (\<lambda>i. set_t r (f i) (g i))) k h =
     k () (h\<lparr>tmaps := (tmaps h)(r := foldl (\<lambda>m i. m(f i \<mapsto> g i)) (tmaps h r) xs)\<rparr>)"
  by (simp add: bnd_def forEach_set_t)

lemma foldl_upd_notin:
  "x \<notin> f ` set xs \<Longrightarrow> foldl (\<lambda>m i. m(f i \<mapsto> g i)) m xs x = m x"
  by (induction xs arbitrary: m) auto

lemma every_i_iff: "every_i p xs = (\<forall>n<length xs. p (xs ! n) n)"
  by (simp add: every_i_def list_all_length)

lemma every_i_nth:
  "length xs = length ys \<Longrightarrow> every_i (\<lambda>x i. f x = ys ! i) xs = (map f xs = ys)"
  unfolding every_i_iff list_eq_iff_nth_eq[of "map f xs" ys] by auto

subsection \<open>Expressions and statements only read the maps\<close>

lemma reads_ret: "reads (ret x)"
  by (simp add: reads_def ret_def same_maps_def)

lemma reads_throw: "reads (throw x)"
  by (simp add: reads_def throw_def same_maps_def)

lemma reads_bnd:
  assumes "reads m" and "\<And>x. reads (f x)"
  shows "reads (bnd m f)"
  unfolding reads_def
proof
  fix h
  obtain r h1 where mh: "m h = (r, h1)" by (cases "m h")
  with assms(1) have s1: "same_maps h h1"
    by (auto simp: reads_def dest!: spec[of _ h])
  show "same_maps h (snd (bnd m f h))"
  proof (cases r)
    case (Inl e)
    with mh s1 show ?thesis by (simp add: bnd_def)
  next
    case (Inr x)
    from assms(2)[of x] have "same_maps h1 (snd (f x h1))" by (simp add: reads_def)
    with s1 have "same_maps h (snd (f x h1))" by (auto simp: same_maps_def)
    with mh Inr show ?thesis by (simp add: bnd_def)
  qed
qed

lemma reads_get_t: "reads (get_t r k)"
  by (simp add: reads_def get_t_def same_maps_def)

lemma reads_get_f: "reads (get_f r k)"
  by (simp add: reads_def get_f_def same_maps_def)

lemma reads_get_c: "reads (get_c r k)"
  by (simp add: reads_def get_c_def same_maps_def)

lemma reads_CLASS: "reads (CLASS n)"
  by (simp add: reads_def CLASS_def same_maps_def)

lemmas reads_intros =
  reads_ret reads_throw reads_bnd reads_get_t reads_get_f reads_get_c reads_CLASS

lemma reads_tcExpr: "reads (tcExpr env locals e)"
  and reads_tcExprs: "reads (tcExprs env locals es)"
  by (induction env locals e and env locals es rule: tcExpr_tcExprs.induct)
     (auto intro!: reads_intros simp: Let_def
           split: option.split list.split Shape.split BinOp.split UniOp.split)

lemma reads_tcStmt: "reads (tcStmt env locals s)"
  and reads_tcBlock: "reads (tcBlock env locals ss)"
  by (induction env locals s and env locals ss rule: tcStmt_tcBlock.induct)
     (auto intro!: reads_intros reads_tcExpr simp: Let_def
           split: option.split list.split Shape.split)

lemma reads_tcInit: "reads (tcInit env init)"
  by (simp add: tcInit_def Let_def reads_ret reads_throw)

subsection \<open>Writes go to new objects\<close>

lemma pres_ret: "Q x \<Longrightarrow> pres n h0 (ret x) Q"
  by (simp add: pres_def ret_def)

lemma pres_throw: "pres n h0 (throw e) Q"
  by (simp add: pres_def throw_def)

lemma pres_bnd:
  assumes "pres n h0 m Q" and "\<And>x. Q x \<Longrightarrow> pres n h0 (f x) R"
  shows "pres n h0 (bnd m f) R"
  unfolding pres_def
proof (intro allI impI)
  fix h assume k: "kept n h0 h"
  obtain r h1 where mh: "m h = (r, h1)" by (cases "m h")
  from assms(1) k mh have k1: "kept n h0 h1" and q: "\<And>x. r = Inr x \<Longrightarrow> Q x"
    by (auto simp: pres_def)
  show "kept n h0 (snd (bnd m f h)) \<and> (\<forall>x. fst (bnd m f h) = Inr x \<longrightarrow> R x)"
  proof (cases r)
    case (Inl e)
    with mh k1 show ?thesis by (simp add: bnd_def)
  next
    case (Inr x)
    with q have "Q x" by simp
    from assms(2)[OF this] k1
    have "kept n h0 (snd (f x h1)) \<and> (\<forall>y. fst (f x h1) = Inr y \<longrightarrow> R y)"
      by (simp add: pres_def)
    with mh Inr show ?thesis by (simp add: bnd_def)
  qed
qed

lemma pres_reads:
  assumes "reads m"
  shows "pres n h0 m (\<lambda>_. True)"
  unfolding pres_def
proof (intro allI impI)
  fix h assume "kept n h0 h"
  moreover from assms have "same_maps h (snd (m h))" by (simp add: reads_def)
  ultimately show "kept n h0 (snd (m h)) \<and> (\<forall>x. fst (m h) = Inr x \<longrightarrow> True)"
    by (auto simp: kept_def same_maps_def)
qed

lemma pres_new_tmap: "pres n h0 (new_tmap m) (\<lambda>r. n \<le> r)"
  by (auto simp: pres_def new_tmap_def kept_def)

lemma pres_new_fmap: "pres n h0 (new_fmap m) (\<lambda>r. n \<le> r)"
  by (auto simp: pres_def new_fmap_def kept_def)

lemma pres_new_cmap: "pres n h0 (new_cmap m) (\<lambda>r. n \<le> r)"
  by (auto simp: pres_def new_cmap_def kept_def)

lemma pres_read_tmap: "pres n h0 (read_tmap r) (\<lambda>_. True)"
  by (auto simp: pres_def read_tmap_def)

lemma pres_read_fmap: "pres n h0 (read_fmap r) (\<lambda>_. True)"
  by (auto simp: pres_def read_fmap_def)

lemma pres_read_cmap: "pres n h0 (read_cmap r) (\<lambda>_. True)"
  by (auto simp: pres_def read_cmap_def)

lemma pres_set_t: "n \<le> r \<Longrightarrow> pres n h0 (set_t r k v) (\<lambda>_. True)"
  by (auto simp: pres_def set_t_def kept_def)

lemma pres_set_f: "n \<le> r \<Longrightarrow> pres n h0 (set_f r k v) (\<lambda>_. True)"
  by (auto simp: pres_def set_f_def kept_def)

lemma pres_set_c: "n \<le> r \<Longrightarrow> pres n h0 (set_c r k v) (\<lambda>_. True)"
  by (auto simp: pres_def set_c_def kept_def)

lemma pres_forEach:
  "(\<And>x. pres n h0 (f x) (\<lambda>_. True)) \<Longrightarrow> pres n h0 (forEach xs f) (\<lambda>_. True)"
  by (induction xs) (auto intro!: pres_ret pres_bnd)

lemma pres_mapM:
  "(\<And>x. pres n h0 (f x) (\<lambda>_. True)) \<Longrightarrow> pres n h0 (mapM f xs) (\<lambda>_. True)"
  by (induction xs) (auto intro!: pres_ret pres_bnd)

lemma pres_emptyLocalTypeEnv: "pres n h0 emptyLocalTypeEnv (\<lambda>l. n \<le> vars l)"
  unfolding emptyLocalTypeEnv_def
  by (rule pres_bnd[OF pres_new_tmap]) (simp add: pres_ret)

lemma pres_class_loop:
  "n \<le> newClasses \<Longrightarrow>
   pres n h0 (forEach cs (\<lambda>cls.
            bnd (new_tmap Map.empty) (\<lambda>fields.
            bnd (new_fmap Map.empty) (\<lambda>methods.
            bnd (forEach (cls_fields cls) (\<lambda>field.
                   set_t fields (vi_name field) (vi_type field))) (\<lambda>_.
            bnd (forEach (cls_methods cls) (\<lambda>method.
                   set_f methods (fd_name method)
                     (map snd (fd_parameters method), fd_ret method))) (\<lambda>_.
            set_c newClasses (cls_name cls) (fields, methods))))))) (\<lambda>_. True)"
  apply (rule pres_forEach)
  apply (rule pres_bnd[OF pres_new_tmap])
  apply (rule pres_bnd[OF pres_new_fmap])
  apply (rule pres_bnd[where Q="\<lambda>_. True"])
   apply (rule pres_forEach, erule pres_set_t)
  apply (rule pres_bnd[where Q="\<lambda>_. True"])
   apply (rule pres_forEach, erule pres_set_f)
  apply (erule pres_set_c)
  done

lemma pres_augmentTEnv:
  "pres n h0 (augmentTEnv env p)
     (\<lambda>e. n \<le> globals e \<and> n \<le> functions e \<and> n \<le> classes e)"
  unfolding augmentTEnv_def
  apply (rule pres_bnd[where Q="\<lambda>r. n \<le> r"])
   apply (rule pres_bnd[OF pres_read_tmap pres_new_tmap])
  apply (rule pres_bnd[where Q="\<lambda>r. n \<le> r"])
   apply (rule pres_bnd[OF pres_read_fmap pres_new_fmap])
  apply (rule pres_bnd[where Q="\<lambda>r. n \<le> r"])
   apply (rule pres_bnd[OF pres_read_cmap pres_new_cmap])
  apply (rule pres_bnd[where Q="\<lambda>_. True"])
   apply (rule pres_forEach, erule pres_set_t)
  apply (rule pres_bnd[where Q="\<lambda>_. True"])
   apply (rule pres_forEach, erule pres_set_f)
  apply (rule pres_bnd[where Q="\<lambda>_. True"])
   apply (erule pres_class_loop)
  apply (rule pres_ret)
  apply simp
  done

lemma pres_tcInit: "pres n h0 (tcInit env init) (\<lambda>_. True)"
  by (rule pres_reads[OF reads_tcInit])

lemma pres_tcDef: "pres n h0 (tcDef env fn) (\<lambda>_. True)"
  unfolding tcDef_def Let_def
  apply (rule pres_bnd[OF pres_emptyLocalTypeEnv])
  apply (rule pres_bnd[where Q="\<lambda>_. True"])
   apply (rule pres_forEach, simp add: pres_set_t)
  apply (rule pres_bnd[where Q="\<lambda>_. True"])
   apply (rule pres_forEach)
   apply (rule pres_bnd[OF pres_tcInit])
   apply (simp add: pres_set_t)
  apply (rule pres_bnd[OF pres_reads[OF reads_tcBlock]])
  apply (simp add: pres_ret)
  done

lemma pres_tcClass: "pres n h0 (tcClass env cls) (\<lambda>_. True)"
  unfolding tcClass_def
  apply (rule pres_bnd[OF pres_mapM[of _ _ "tcInit env"]])
   apply (rule pres_tcInit)
  apply (rule pres_bnd[OF pres_mapM[of _ _ "tcDef env"]])
   apply (rule pres_tcDef)
  apply (simp add: pres_ret)
  done

lemma pres_copy_locals:
  "n \<le> globals newEnv \<Longrightarrow> pres n h0 (copy_locals locals newEnv) (\<lambda>_. True)"
  by (auto simp: pres_def copy_locals_def kept_def)

lemma pres_tc:
  "pres n h0 (tc env p)
     (\<lambda>r. n \<le> globals (snd r) \<and> n \<le> functions (snd r) \<and> n \<le> classes (snd r))"
  unfolding tc_def Let_def
  apply (rule pres_bnd[OF pres_emptyLocalTypeEnv])
  apply (rule pres_bnd[OF pres_augmentTEnv])
  apply (rule pres_bnd[OF pres_mapM[of _ _ "tcInit env"]])
   apply (rule pres_tcInit)
  apply (rule pres_bnd[OF pres_mapM])
   apply (rule pres_tcDef)
  apply (rule pres_bnd[OF pres_mapM])
   apply (rule pres_tcClass)
  apply (rule pres_bnd[OF pres_reads[OF reads_tcBlock]])
  apply (rule pres_bnd[OF pres_copy_locals])
   apply simp
  apply (rule pres_ret)
  apply simp
  done

lemma bnd_fails:
  assumes "pres n h0 m Q" and "kept n h0 h"
    and "\<And>x h'. kept n h0 h' \<Longrightarrow> Q x \<Longrightarrow> isl (fst (f x h'))"
  shows "isl (fst (bnd m f h))"
proof -
  obtain r h1 where mh: "m h = (r, h1)" by (cases "m h")
  with assms(1,2) have k: "kept n h0 h1" and q: "\<And>x. r = Inr x \<Longrightarrow> Q x"
    by (auto simp: pres_def)
  show ?thesis
  proof (cases r)
    case (Inl e)
    with mh show ?thesis by (simp add: bnd_def)
  next
    case (Inr x)
    with assms(3)[OF k q] mh show ?thesis by (simp add: bnd_def)
  qed
qed

subsection \<open>Assignment to an undeclared name\<close>

lemma augmentTEnv_globals:
  assumes "augmentTEnv env p h = (Inr newEnv, h')"
  shows "globals newEnv = fresh h \<and> fresh h < fresh h'
         \<and> tmaps h' (fresh h) =
             foldl (\<lambda>m i. m(vi_name i \<mapsto> vi_type i)) (tmaps h (globals env)) (inits p)"
proof -
  define g where "g = fresh h"
  define h4 where "h4 = h\<lparr>fmaps := (fmaps h)(Suc g := fmaps h (functions env)),
     cmaps := (cmaps h)(Suc (Suc g) := cmaps h (classes env)),
     fresh := Suc (Suc (Suc g)),
     tmaps := (tmaps h)(g :=
       foldl (\<lambda>m i. m(vi_name i \<mapsto> vi_type i)) (tmaps h (globals env)) (inits p))\<rparr>"
  define rest where "rest =
     bnd (forEach (funs p) (\<lambda>fn.
            set_f (Suc g) (fd_name fn) (map snd (fd_parameters fn), fd_ret fn))) (\<lambda>_.
     bnd (forEach (classes_of p) (\<lambda>cls.
            bnd (new_tmap Map.empty) (\<lambda>fields.
            bnd (new_fmap Map.empty) (\<lambda>methods.
            bnd (forEach (cls_fields cls) (\<lambda>field.
                   set_t fields (vi_name field) (vi_type field))) (\<lambda>_.
            bnd (forEach (cls_methods cls) (\<lambda>method.
                   set_f methods (fd_name method)
                     (map snd (fd_parameters method), fd_ret method))) (\<lambda>_.
            set_c (Suc (Suc g)) (cls_name cls) (fields, methods))))))) (\<lambda>_.
     ret \<lparr>globals = g, functions = Suc g, classes = Suc (Suc g)\<rparr>))"
  have step: "augmentTEnv env p h = rest h4"
    unfolding augmentTEnv_def rest_def h4_def g_def
    by (simp add: bnd_read_new_tmap bnd_read_new_fmap bnd_read_new_cmap bnd_forEach_set_t)
  have "pres (Suc g) h4 rest (\<lambda>e. globals e = g)"
    unfolding rest_def
    apply (rule pres_bnd[where Q="\<lambda>_. True"])
     apply (rule pres_forEach, simp add: pres_set_f)
    apply (rule pres_bnd[where Q="\<lambda>_. True"])
     apply (rule pres_class_loop, simp)
    apply (rule pres_ret)
    apply simp
    done
  moreover have "kept (Suc g) h4 h4" by (simp add: kept_def h4_def)
  ultimately have "kept (Suc g) h4 (snd (rest h4))"
    and "\<forall>e. fst (rest h4) = Inr e \<longrightarrow> globals e = g"
    by (auto simp: pres_def)
  with assms step have k: "kept (Suc g) h4 h'" and e: "globals newEnv = g" by auto
  from k have "tmaps h' g = tmaps h4 g" and "Suc g \<le> fresh h'" by (auto simp: kept_def)
  then show ?thesis using e
    by (auto simp: h4_def g_def)
qed

lemma tcStmt_assign_undeclared:
  "tmaps h (vars locals) x = None \<Longrightarrow> tmaps h (globals env) x = None \<Longrightarrow>
   tcStmt env locals (SAssign loc x v) h =
     (case tcExpr env locals v h of (Inl e, h1) \<Rightarrow> (Inl e, h1)
      | (Inr tv, h1) \<Rightarrow> (Inl (NameError x loc), h1))"
  using reads_tcExpr[of env locals v]
  by (auto simp: monad_defs reads_def same_maps_def split: prod.splits sum.splits
           dest!: spec[of _ h])

lemma tcBlock_undeclared_fails:
  "SAssign loc x v \<in> set ss \<Longrightarrow> tmaps h (vars locals) x = None \<Longrightarrow>
   tmaps h (globals env) x = None \<Longrightarrow> isl (fst (tcBlock env locals ss h))"
proof (induction ss arbitrary: h)
  case Nil
  then show ?case by simp
next
  case (Cons s ss)
  obtain r h1 where sh: "tcStmt env locals s h = (r, h1)" by (cases "tcStmt env locals s h")
  with reads_tcStmt[of env locals s] have same: "tmaps h1 = tmaps h"
    by (auto simp: reads_def same_maps_def dest!: spec[of _ h])
  show ?case
  proof (cases r)
    case (Inl e)
    with sh show ?thesis by (simp add: bnd_def)
  next
    case (Inr t)
    show ?thesis
    proof (cases "s = SAssign loc x v")
      case True
      from tcStmt_assign_undeclared[OF Cons.prems(2,3), of loc v]
      have "isl (fst (tcStmt env locals (SAssign loc x v) h))"
        by (simp split: prod.splits sum.splits)
      with True sh Inr show ?thesis by (simp del: tcStmt.simps)
    next
      case False
      with Cons.prems have "SAssign loc x v \<in> set ss" by simp
      from Cons.IH[OF this, of h1] Cons.prems same
      have "isl (fst (tcBlock env locals ss h1))" by simp
      with sh Inr show ?thesis
        by (cases "tcBlock env locals ss h1") (auto simp: bnd_def ret_def split: sum.splits)
    qed
  qed
qed

lemma tc_undeclared_fails:
  assumes a: "SAssign loc x v \<in> set (stmts p)"
    and g: "tmaps h (globals env) x = None"
    and i: "x \<notin> vi_name ` set (inits p)"
  shows "isl (fst (tc env p h))"
proof -
  define l where "l = fresh h"
  define locals where "locals = \<lparr>vars = l, expectedRet = NONE, topLevel = True\<rparr>"
  define h1 where "h1 = h\<lparr>tmaps := (tmaps h)(l := Map.empty), fresh := Suc l\<rparr>"
  have g1: "tmaps h1 (globals env) x = None" using g by (simp add: h1_def)
  define rest where "rest = (\<lambda>newEnv.
     bnd (mapM (tcInit env) (inits p)) (\<lambda>tInits.
     bnd (mapM (tcDef newEnv) (funs p)) (\<lambda>tDefs.
     bnd (mapM (tcClass newEnv) (classes_of p)) (\<lambda>tClasses.
     bnd (tcBlock newEnv locals (stmts p)) (\<lambda>tBody.
     let lastTyp = (if tBody \<noteq> [] then stmt_a (last tBody) else NONE) in
     bnd (copy_locals locals newEnv) (\<lambda>_.
     ret (\<lparr>tp_a = lastTyp, tp_inits = tInits, tp_funs = tDefs, tp_classes = tClasses,
           tp_stmts = tBody, tp_loc = prog_loc p\<rparr>, newEnv)))))))"
  have step: "tc env p h = bnd (augmentTEnv env p) rest h1"
    unfolding tc_def rest_def emptyLocalTypeEnv_def h1_def locals_def l_def
    by (simp add: bnd_emptyLocal)
  obtain r h2 where ah: "augmentTEnv env p h1 = (r, h2)" by (cases "augmentTEnv env p h1")
  show ?thesis
  proof (cases r)
    case (Inl e)
    with ah step show ?thesis by (simp add: bnd_def)
  next
    case (Inr newEnv)
    from augmentTEnv_globals[OF ah[unfolded Inr]] g1 i
    have ge: "globals newEnv = Suc l" and fr: "Suc l < fresh h2"
      and gx: "tmaps h2 (Suc l) x = None"
      by (auto simp: h1_def foldl_upd_notin)
    from pres_augmentTEnv[of "Suc l" h1 env p] ah
    have "kept (Suc l) h1 h2" by (auto simp: pres_def kept_def h1_def dest!: spec[of _ h1])
    then have lx: "tmaps h2 l x = None" by (simp add: kept_def h1_def)
    define n where "n = fresh h2"
    have k2: "kept n h2 h2" by (simp add: kept_def n_def)
    have blk: "isl (fst (bnd (tcBlock newEnv locals (stmts p)) k h'))"
      if "kept n h2 h'" for h' k
    proof -
      from that fr have "tmaps h' l = tmaps h2 l" and "tmaps h' (Suc l) = tmaps h2 (Suc l)"
        by (auto simp: kept_def n_def)
      with lx gx ge have "isl (fst (tcBlock newEnv locals (stmts p) h'))"
        by (intro tcBlock_undeclared_fails[OF a]) (simp_all add: locals_def)
      then show ?thesis by (rule isl_bnd)
    qed
    have "isl (fst (rest newEnv h2))"
      unfolding rest_def
      apply (rule bnd_fails[OF pres_mapM[of _ _ "tcInit env"] k2])
       apply (rule pres_tcInit)
      apply (rule bnd_fails[OF pres_mapM[of _ _ "tcDef newEnv"]])
        apply (rule pres_tcDef)
       apply assumption
      apply (rule bnd_fails[OF pres_mapM[of _ _ "tcClass newEnv"]])
        apply (rule pres_tcClass)
       apply assumption
      apply (rule blk)
      apply assumption
      done
    with ah Inr step show ?thesis by (simp add: bnd_def)
  qed
qed

lemma bnd_Inr:
  "bnd m f h = (Inr y, h') \<Longrightarrow> \<exists>x h1. m h = (Inr x, h1) \<and> f x h1 = (Inr y, h')"
  by (auto simp: bnd_def split: prod.splits sum.splits)

lemma pres_run: "pres n h0 m Q \<Longrightarrow> kept n h0 h \<Longrightarrow> m h = (r, h') \<Longrightarrow> kept n h0 h'"
  by (auto simp: pres_def dest!: spec[of _ h])

lemma tc_globals:
  assumes run: "tc env p h = (Inr (tp, newEnv), h')" and al: "globals env < fresh h"
  shows "tmaps h' (globals newEnv) =
           foldl (\<lambda>m i. m(vi_name i \<mapsto> vi_type i)) (tmaps h (globals env)) (inits p)"
proof -
  define l where "l = fresh h"
  define locals where "locals = \<lparr>vars = l, expectedRet = NONE, topLevel = True\<rparr>"
  define h1 where "h1 = h\<lparr>tmaps := (tmaps h)(l := Map.empty), fresh := Suc l\<rparr>"
  define rest where "rest = (\<lambda>newEnv.
     bnd (mapM (tcInit env) (inits p)) (\<lambda>tInits.
     bnd (mapM (tcDef newEnv) (funs p)) (\<lambda>tDefs.
     bnd (mapM (tcClass newEnv) (classes_of p)) (\<lambda>tClasses.
     bnd (tcBlock newEnv locals (stmts p)) (\<lambda>tBody.
     let lastTyp = (if tBody \<noteq> [] then stmt_a (last tBody) else NONE) in
     bnd (copy_locals locals newEnv) (\<lambda>_.
     ret (\<lparr>tp_a = lastTyp, tp_inits = tInits, tp_funs = tDefs, tp_classes = tClasses,
           tp_stmts = tBody, tp_loc = prog_loc p\<rparr>, newEnv)))))))"
  have step: "tc env p h = bnd (augmentTEnv env p) rest h1"
    unfolding tc_def rest_def emptyLocalTypeEnv_def h1_def locals_def l_def
    by (simp add: bnd_emptyLocal)
  from run step obtain e0 h2 where ah: "augmentTEnv env p h1 = (Inr e0, h2)"
    and r2: "rest e0 h2 = (Inr (tp, newEnv), h')"
    by (auto dest: bnd_Inr)
  from al have g1: "tmaps h1 (globals env) = tmaps h (globals env)"
    by (simp add: h1_def l_def)
  from augmentTEnv_globals[OF ah] g1
  have ge: "globals e0 = Suc l" and fr: "Suc l < fresh h2"
    and gm: "tmaps h2 (Suc l) =
        foldl (\<lambda>m i. m(vi_name i \<mapsto> vi_type i)) (tmaps h (globals env)) (inits p)"
    by (auto simp: h1_def)
  have "kept (Suc l) h1 h1" by (simp add: kept_def h1_def)
  from pres_run[OF pres_augmentTEnv this ah]
  have lm: "tmaps h2 l = Map.empty" by (simp add: kept_def h1_def)
  define n where "n = fresh h2"
  have k2: "kept n h2 h2" by (simp add: kept_def n_def)
  from r2 obtain a h3 where a3: "mapM (tcInit env) (inits p) h2 = (Inr a, h3)"
    and r3: "bnd (mapM (tcDef e0) (funs p)) (\<lambda>tDefs.
     bnd (mapM (tcClass e0) (classes_of p)) (\<lambda>tClasses.
     bnd (tcBlock e0 locals (stmts p)) (\<lambda>tBody.
     let lastTyp = (if tBody \<noteq> [] then stmt_a (last tBody) else NONE) in
     bnd (copy_locals locals e0) (\<lambda>_.
     ret (\<lparr>tp_a = lastTyp, tp_inits = a, tp_funs = tDefs, tp_classes = tClasses,
           tp_stmts = tBody, tp_loc = prog_loc p\<rparr>, e0))))) h3 = (Inr (tp, newEnv), h')"
    unfolding rest_def by (auto dest: bnd_Inr)
  have k3: "kept n h2 h3"
    by (rule pres_run[OF pres_mapM k2 a3]) (rule pres_tcInit)
  from r3 obtain b h4 where b4: "mapM (tcDef e0) (funs p) h3 = (Inr b, h4)"
    and r4: "bnd (mapM (tcClass e0) (classes_of p)) (\<lambda>tClasses.
     bnd (tcBlock e0 locals (stmts p)) (\<lambda>tBody.
     let lastTyp = (if tBody \<noteq> [] then stmt_a (last tBody) else NONE) in
     bnd (copy_locals locals e0) (\<lambda>_.
     ret (\<lparr>tp_a = lastTyp, tp_inits = a, tp_funs = b, tp_classes = tClasses,
           tp_stmts = tBody, tp_loc = prog_loc p\<rparr>, e0)))) h4 = (Inr (tp, newEnv), h')"
    by (auto dest: bnd_Inr)
  have k4: "kept n h2 h4"
    by (rule pres_run[OF pres_mapM k3 b4]) (rule pres_tcDef)
  from r4 obtain c h5 where c5: "mapM (tcClass e0) (classes_of p) h4 = (Inr c, h5)"
    and r5: "bnd (tcBlock e0 locals (stmts p)) (\<lambda>tBody.
     let lastTyp = (if tBody \<noteq> [] then stmt_a (last tBody) else NONE) in
     bnd (copy_locals locals e0) (\<lambda>_.
     ret (\<lparr>tp_a = lastTyp, tp_inits = a, tp_funs = b, tp_classes = c,
           tp_stmts = tBody, tp_loc = prog_loc p\<rparr>, e0))) h5 = (Inr (tp, newEnv), h')"
    by (auto dest: bnd_Inr)
  have k5: "kept n h2 h5"
    by (rule pres_run[OF pres_mapM k4 c5]) (rule pres_tcClass)
  from r5 obtain d h6 where d6: "tcBlock e0 locals (stmts p) h5 = (Inr d, h6)"
    and r6: "bnd (copy_locals locals e0) (\<lambda>_.
     ret (\<lparr>tp_a = (if d \<noteq> [] then stmt_a (last d) else NONE), tp_inits = a, tp_funs = b,
           tp_classes = c, tp_stmts = d, tp_loc = prog_loc p\<rparr>, e0)) h6
       = (Inr (tp, newEnv), h')"
    by (auto simp: Let_def dest: bnd_Inr)
  from reads_tcBlock[of e0 locals "stmts p"] d6 have "tmaps h6 = tmaps h5"
    by (auto simp: reads_def same_maps_def dest!: spec[of _ h5])
  with k5 fr have m6: "tmaps h6 l = tmaps h2 l" "tmaps h6 (Suc l) = tmaps h2 (Suc l)"
    by (auto simp: kept_def n_def)
  from r6 have "newEnv = e0"
    and "tmaps h' (globals e0) = tmaps h6 (globals e0) ++ tmaps h6 (vars locals)"
    by (auto simp: bnd_def copy_locals_def ret_def)
  with m6 ge lm gm show ?thesis by (simp add: locals_def)
qed

text \<open>
  C1. The spec has the first assignment to an undeclared name declare it. The assign case
  looks the name up in the scope, then in the globals, and throws the name error when it
  is in neither; no statement adds a binding to the scope. The program with the single
  top-level statement \<^verbatim>\<open>x = 1\<close>, checked in the default environment, fails with the
  name error for x.
\<close>

theorem assign_undeclared_counterexample:
  "fst (tc defaultTypeEnv
         \<lparr>inits = [], funs = [], classes_of = [],
          stmts = [SAssign 1 ''x'' (ELiteral 2 (LitNum 1))], prog_loc = 0\<rparr>
         loaded)
   = Inl (NameError ''x'' 1)"
  by (simp add: eval_defs)

text \<open>
  C1, as the code has it: a plain assignment to a name that is neither in the scope nor in
  the globals throws the name error for that name, at the statement, once its value has
  type-checked; checking a program fails whenever its top-level block contains a plain
  assignment to a name that is neither in the caller's globals nor among the program's own
  variable initialisers; and when a program checks, the globals of the returned
  environment are the caller's globals updated with the program's variable initialisers:
  the scope that is folded into them holds no binding.
\<close>

theorem assign_undeclared_fails:
  "(tmaps h (vars locals) x = None \<and> tmaps h (globals env) x = None
      \<and> tcExpr env locals v h = (Inr tv, h1) \<longrightarrow>
    tcStmt env locals (SAssign loc x v) h = (Inl (NameError x loc), h1))
   \<and> (SAssign loc x v \<in> set (stmts p) \<and> tmaps h (globals env) x = None
      \<and> x \<notin> vi_name ` set (inits p) \<longrightarrow>
    isl (fst (tc env p h)))
   \<and> (tc env p h = (Inr (tp, newEnv), h') \<and> globals env < fresh h \<longrightarrow>
    tmaps h' (globals newEnv) =
      foldl (\<lambda>m i. m(vi_name i \<mapsto> vi_type i)) (tmaps h (globals env)) (inits p))"
proof (intro conjI impI)
  assume "tmaps h (vars locals) x = None \<and> tmaps h (globals env) x = None
      \<and> tcExpr env locals v h = (Inr tv, h1)"
  then show "tcStmt env locals (SAssign loc x v) h = (Inl (NameError x loc), h1)"
    using tcStmt_assign_undeclared[of h locals x env loc v] by simp
next
  assume "SAssign loc x v \<in> set (stmts p) \<and> tmaps h (globals env) x = None
      \<and> x \<notin> vi_name ` set (inits p)"
  then show "isl (fst (tc env p h))"
    using tc_undeclared_fails[of loc x v p h env] by simp
next
  assume "tc env p h = (Inr (tp, newEnv), h') \<and> globals env < fresh h"
  then show "tmaps h' (globals newEnv) =
      foldl (\<lambda>m i. m(vi_name i \<mapsto> vi_type i)) (tmaps h (globals env)) (inits p)"
    using tc_globals[of env p h tp newEnv h'] by simp
qed

theorem assign_undeclared_fails_witness:
  "tmaps entered (vars top_locals) ''x'' = None
   \<and> tmaps entered (globals defaultTypeEnv) ''x'' = None
   \<and> tcExpr defaultTypeEnv top_locals (ELiteral 2 (LitNum 1)) entered
       = (Inr (TLiteral NUM 2 (LitNum 1)), entered)
   \<and> tcStmt defaultTypeEnv top_locals (SAssign 1 ''x'' (ELiteral 2 (LitNum 1))) entered
       = (Inl (NameError ''x'' 1), entered)
   \<and> SAssign 1 ''x'' (ELiteral 2 (LitNum 1))
       \<in> set (stmts \<lparr>inits = [], funs = [], classes_of = [],
                      stmts = [SPass 3, SAssign 1 ''x'' (ELiteral 2 (LitNum 1))],
                      prog_loc = 0\<rparr>)
   \<and> tmaps loaded (globals defaultTypeEnv) ''x'' = None
   \<and> ''x'' \<notin> vi_name ` set (inits \<lparr>inits = [], funs = [], classes_of = [],
                      stmts = [SPass 3, SAssign 1 ''x'' (ELiteral 2 (LitNum 1))],
                      prog_loc = 0\<rparr>)
   \<and> isl (fst (tc defaultTypeEnv
                 \<lparr>inits = [], funs = [], classes_of = [],
                  stmts = [SPass 3, SAssign 1 ''x'' (ELiteral 2 (LitNum 1))],
                  prog_loc = 0\<rparr>
                 loaded))
   \<and> globals defaultTypeEnv < fresh loaded
   \<and> fst (tc defaultTypeEnv
            \<lparr>inits = [\<lparr>vi_name = ''a'', vi_type = NUM, vi_value = LitNum 0, vi_loc = 1\<rparr>],
             funs = [], classes_of = [],
             stmts = [SAssign 2 ''a'' (ELiteral 3 (LitNum 1))], prog_loc = 0\<rparr> loaded)
      = Inr (\<lparr>tp_a = NONE,
               tp_inits = [\<lparr>tvi_a = NONE,
                             tvi_init = \<lparr>vi_name = ''a'', vi_type = NUM,
                                          vi_value = LitNum 0, vi_loc = 1\<rparr>\<rparr>],
               tp_funs = [], tp_classes = [],
               tp_stmts = [TAssign NONE 2 ''a'' (TLiteral NUM 3 (LitNum 1))], tp_loc = 0\<rparr>,
             \<lparr>globals = 8, functions = 9, classes = 10\<rparr>)
   \<and> tmaps (snd (tc defaultTypeEnv
            \<lparr>inits = [\<lparr>vi_name = ''a'', vi_type = NUM, vi_value = LitNum 0, vi_loc = 1\<rparr>],
             funs = [], classes_of = [],
             stmts = [SAssign 2 ''a'' (ELiteral 3 (LitNum 1))], prog_loc = 0\<rparr> loaded)) 8
      = [''a'' \<mapsto> NUM]"
proof -
  define P where "P = \<lparr>inits = [\<lparr>vi_name = ''a'', vi_type = NUM, vi_value = LitNum 0,
                                  vi_loc = 1\<rparr>],
                       funs = [], classes_of = [],
                       stmts = [SAssign 2 ''a'' (ELiteral 3 (LitNum 1))], prog_loc = 0\<rparr>"
  define TP where "TP = \<lparr>tp_a = NONE,
               tp_inits = [\<lparr>tvi_a = NONE,
                             tvi_init = \<lparr>vi_name = ''a'', vi_type = NUM,
                                          vi_value = LitNum 0, vi_loc = 1\<rparr>\<rparr>],
               tp_funs = [], tp_classes = [],
               tp_stmts = [TAssign NONE 2 ''a'' (TLiteral NUM 3 (LitNum 1))], tp_loc = 0\<rparr>"
  have l: "tmaps entered (vars top_locals) ''x'' = None"
    by (simp add: entered_def top_locals_def loaded_def)
  have g: "tmaps entered (globals defaultTypeEnv) ''x'' = None"
    by (simp add: entered_def defaultTypeEnv_def loaded_def)
  have v: "tcExpr defaultTypeEnv top_locals (ELiteral 2 (LitNum 1)) entered
       = (Inr (TLiteral NUM 2 (LitNum 1)), entered)"
    by (simp add: ret_def)
  have g': "tmaps loaded (globals defaultTypeEnv) ''x'' = None"
    by (simp add: defaultTypeEnv_def loaded_def)
  have al: "globals defaultTypeEnv < fresh loaded"
    by (simp add: defaultTypeEnv_def loaded_def)
  have r: "fst (tc defaultTypeEnv P loaded)
             = Inr (TP, \<lparr>globals = 8, functions = 9, classes = 10\<rparr>)"
    by (simp add: P_def TP_def eval_defs)
  have run: "tc defaultTypeEnv P loaded
             = (Inr (TP, \<lparr>globals = 8, functions = 9, classes = 10\<rparr>),
                snd (tc defaultTypeEnv P loaded))"
    by (simp only: r[symmetric] prod.collapse)
  from assign_undeclared_fails[where h = entered and locals = top_locals and x = "''x''"
         and env = defaultTypeEnv and v = "ELiteral 2 (LitNum 1)"
         and tv = "TLiteral NUM 2 (LitNum 1)" and ?h1.0 = entered and loc = 1
         and p = "\<lparr>inits = [], funs = [], classes_of = [], stmts = [], prog_loc = 0\<rparr>",
         THEN conjunct1]
       l g v
  have s: "tcStmt defaultTypeEnv top_locals (SAssign 1 ''x'' (ELiteral 2 (LitNum 1))) entered
       = (Inl (NameError ''x'' 1), entered)"
    by (simp del: tcStmt.simps tcExpr.simps)
  from assign_undeclared_fails[where h = loaded and locals = top_locals and x = "''x''"
         and env = defaultTypeEnv and v = "ELiteral 2 (LitNum 1)" and loc = 1
         and p = "\<lparr>inits = [], funs = [], classes_of = [],
                   stmts = [SPass 3, SAssign 1 ''x'' (ELiteral 2 (LitNum 1))],
                   prog_loc = 0\<rparr>",
         THEN conjunct2, THEN conjunct1]
       g'
  have t: "isl (fst (tc defaultTypeEnv
                 \<lparr>inits = [], funs = [], classes_of = [],
                  stmts = [SPass 3, SAssign 1 ''x'' (ELiteral 2 (LitNum 1))],
                  prog_loc = 0\<rparr>
                 loaded))"
    by simp
  from assign_undeclared_fails[where env = defaultTypeEnv and p = P and h = loaded
         and tp = TP and newEnv = "\<lparr>globals = 8, functions = 9, classes = 10\<rparr>"
         and h' = "snd (tc defaultTypeEnv P loaded)",
         THEN conjunct2, THEN conjunct2, rule_format, OF conjI, OF run al]
  have m: "tmaps (snd (tc defaultTypeEnv P loaded)) 8 = [''a'' \<mapsto> NUM]"
    by (simp add: P_def defaultTypeEnv_def loaded_def)
  from l g v s g' t al r m show ?thesis
    unfolding P_def TP_def by (intro conjI) simp_all
qed

subsection \<open>Calls\<close>

text \<open>
  C2. The spec has the argument of a one-argument builtin other than print not checked
  against the recorded parameter type. The source checks it: \<^verbatim>\<open>abs(True)\<close> in the
  default environment fails with the type mismatch (the builtin is present and the
  argument type-checks to the boolean type).
\<close>

theorem builtin1_abs_bool_counterexample:
  "fst (tc defaultTypeEnv
         \<lparr>inits = [], funs = [], classes_of = [],
          stmts = [SExpr 1 (EBuiltin1 2 ''abs'' (ELiteral 3 (LitBool True)))], prog_loc = 0\<rparr>
         loaded)
   = Inl (TypeMismatchError ''number'' ''literal'' 2)"
  by (simp add: eval_defs)

text \<open>
  C2, as the code has it: for a one-argument builtin call whose callee is not print and
  is in the function table with at least one recorded parameter type, and whose argument
  type-checks, the argument's type is checked for assignability to the first recorded
  parameter type: the call has the recorded return type when it is assignable and fails
  with the type mismatch when it is not.
\<close>

theorem builtin1_checks_assignability:
  "name \<noteq> ''print'' \<Longrightarrow> fmaps h (functions env) name = Some (p # ps, retTyp) \<Longrightarrow>
   tcExpr env locals arg h = (Inr tArg, h') \<Longrightarrow>
   tcExpr env locals (EBuiltin1 loc name arg) h =
     (if isAssignable env (expr_a tArg) p
      then (Inr (TBuiltin1 retTyp loc name tArg), h')
      else (Inl (TypeMismatchError (descr p)
                  (case shape (expr_a tArg) of Class n \<Rightarrow> n | _ \<Rightarrow> expr_tag tArg) loc), h'))"
  by (simp add: monad_defs)

theorem builtin1_checks_assignability_witness:
  "''abs'' \<noteq> ''print''
   \<and> fmaps entered (functions defaultTypeEnv) ''abs'' = Some ([NUM], NUM)
   \<and> tcExpr defaultTypeEnv top_locals (ELiteral 2 (LitNum 3)) entered
       = (Inr (TLiteral NUM 2 (LitNum 3)), entered)
   \<and> isAssignable defaultTypeEnv NUM NUM
   \<and> tcExpr defaultTypeEnv top_locals (EBuiltin1 1 ''abs'' (ELiteral 2 (LitNum 3))) entered
       = (Inr (TBuiltin1 NUM 1 ''abs'' (TLiteral NUM 2 (LitNum 3))), entered)"
proof -
  have n: "''abs'' \<noteq> ''print''" by simp
  have f: "fmaps entered (functions defaultTypeEnv) ''abs'' = Some ([NUM], NUM)"
    by (simp add: entered_def loaded_def defaultTypeEnv_def defaultGlobalFunctions_def)
  have a: "tcExpr defaultTypeEnv top_locals (ELiteral 2 (LitNum 3)) entered
       = (Inr (TLiteral NUM 2 (LitNum 3)), entered)"
    by (simp add: ret_def)
  have s: "isAssignable defaultTypeEnv NUM NUM"
    by (simp add: isAssignable_def isSubtype_def equalType_def)
  from builtin1_checks_assignability[OF n f a, of 1] n f a s show ?thesis
    by simp
qed

text \<open>
  What the call of an ordinary function does once its arguments have type-checked: the
  types of the arguments are compared with the declared parameter types by \<^verbatim>\<open>===\<close>.
\<close>

lemma call_ordinary_function:
  "cmaps h (classes env) name = None \<Longrightarrow>
   fmaps h (functions env) name = Some (argTypes, retType) \<Longrightarrow>
   tcExprs env locals args h = (Inr tArgs, h') \<Longrightarrow>
   tcExpr env locals (ECall loc name args) h =
     (if map expr_a tArgs = argTypes then (Inr (TCall retType loc name args), h')
      else if length argTypes \<noteq> length args
      then (Inl (TypeError (name @ '' takes '' @ show_nat (length argTypes)
                   @ '' positional arguments but ''
                   @ show_nat (length args) @ '' were given'') loc), h')
      else (Inl (TypeMismatchError (toObject argTypes) (toObject (map expr_a tArgs)) loc), h'))"
  apply (frule tcExprs_length)
  apply (cases "length argTypes = length args")
   apply (simp add: monad_defs every_i_nth)
  apply (auto simp: monad_defs)
  done

text \<open>
  C3. The spec has a call of an ordinary function type-check exactly when the numbers of
  arguments and parameters agree and every argument's type is structurally equal to the
  declared parameter type. The source compares the type objects with \<^verbatim>\<open>===\<close>, so a
  class-typed argument is rejected although its type is the declared class: with a class
  C and a function f with one parameter of type C (the parser's type object 7), the call
  \<^verbatim>\<open>f(C())\<close> fails with a type mismatch that expects [C] and finds [C].
\<close>

theorem call_class_argument_rejected:
  "fst (tc defaultTypeEnv
         \<lparr>inits = [],
          funs = [\<lparr>fd_name = ''f'', fd_parameters = [(''x'', Obj 7 (Class ''C''))],
                   fd_ret = NONE, fd_inits = [], fd_body = [SPass 3], fd_loc = 2\<rparr>],
          classes_of = [\<lparr>cls_name = ''C'', cls_fields = [], cls_methods = [], cls_loc = 1\<rparr>],
          stmts = [SExpr 4 (ECall 5 ''f'' [ECall 6 ''C'' []])], prog_loc = 0\<rparr>
         (loaded\<lparr>fresh := 8\<rparr>))
   = Inl (TypeMismatchError ''[C]'' ''[C]'' 5)"
  by (simp add: eval_defs)

text \<open>
  C9. A call whose callee is a known class never type-checks its arguments: its outcome
  is the same for all argument lists of one length, a result is the construct node, which
  has no arguments, and without an \<^verbatim>\<open>__init__\<close> method the construction succeeds
  whatever the arguments are.
\<close>

theorem construct_ignores_arguments:
  "cmaps h (classes env) name = Some (flds, methods) \<Longrightarrow>
   (length args' = length args \<longrightarrow>
      tcExpr env locals (ECall loc name args') h = tcExpr env locals (ECall loc name args) h)
   \<and> (\<forall>r h'. tcExpr env locals (ECall loc name args) h = (Inr r, h') \<longrightarrow>
        r = TConstruct (Obj (fresh h) (Class name)) loc name)
   \<and> (fmaps h methods ''__init__'' = None \<longrightarrow>
        tcExpr env locals (ECall loc name args) h =
          (Inr (TConstruct (Obj (fresh h) (Class name)) loc name),
           h\<lparr>fresh := Suc (fresh h)\<rparr>))"
  by (auto simp: monad_defs split: option.splits if_splits)

theorem construct_ignores_arguments_witness:
  "cmaps with_C (classes defaultTypeEnv) ''C'' = Some (8, 9)
   \<and> fmaps with_C 9 ''__init__'' = None
   \<and> tcExpr defaultTypeEnv top_locals (EId 3 ''unbound'') with_C
       = (Inl (NameError ''unbound'' 3), with_C)
   \<and> tcExpr defaultTypeEnv top_locals (ECall 1 ''C'' [EId 3 ''unbound'']) with_C
       = (Inr (TConstruct (Obj 10 (Class ''C'')) 1 ''C''), with_C\<lparr>fresh := 11\<rparr>)"
proof -
  have c: "cmaps with_C (classes defaultTypeEnv) ''C'' = Some (8, 9)"
    by (simp add: with_C_def entered_def loaded_def defaultTypeEnv_def)
  have i: "fmaps with_C 9 ''__init__'' = None"
    by (simp add: with_C_def entered_def loaded_def)
  have f: "fresh with_C = 10"
    by (simp add: with_C_def)
  have u: "tcExpr defaultTypeEnv top_locals (EId 3 ''unbound'') with_C
       = (Inl (NameError ''unbound'' 3), with_C)"
    by (simp add: monad_defs with_C_def entered_def loaded_def defaultTypeEnv_def
          top_locals_def)
  from construct_ignores_arguments[OF c, where args = "[EId 3 ''unbound'']"
         and locals = top_locals and loc = 1, THEN conjunct2, THEN conjunct2, rule_format, OF i] f
  have "tcExpr defaultTypeEnv top_locals (ECall 1 ''C'' [EId 3 ''unbound'']) with_C
       = (Inr (TConstruct (Obj 10 (Class ''C'')) 1 ''C''), with_C\<lparr>fresh := 11\<rparr>)"
    by (simp del: tcExpr.simps)
  with c i u show ?thesis by simp
qed

subsection \<open>Conditionals and loops\<close>

text \<open>
  What the if case does once the condition has the type object \<^verbatim>\<open>BOOL\<close> and both
  branches, neither of them empty, have type-checked: the types of their last statements
  are compared with \<^verbatim>\<open>!==\<close>.
\<close>

lemma if_branches_compared_by_identity:
  "tcExpr env locals cond h = (Inr tCond, h1) \<Longrightarrow> expr_a tCond = BOOL \<Longrightarrow>
   tcBlock env locals thn h1 = (Inr tThn, h2) \<Longrightarrow> thn \<noteq> [] \<Longrightarrow>
   tcBlock env locals els h2 = (Inr tEls, h3) \<Longrightarrow> els \<noteq> [] \<Longrightarrow>
   tcStmt env locals (SIf loc cond thn els) h =
     (if stmt_a (last tThn) = stmt_a (last tEls)
      then (Inr (TIf (stmt_a (last tThn)) loc tCond tThn tEls), h3)
      else (Inl (SyntaxError ''Types of then and else branches must match'' loc), h3))"
  apply (frule tcBlock_length[of _ _ thn])
  apply (frule tcBlock_length[of _ _ els])
  apply (cases tThn; cases tEls; simp add: monad_defs)
  done

text \<open>
  C4. The spec has an if statement succeed when the types of the last statements of its
  two branches are structurally equal. The source compares the two type objects with
  \<^verbatim>\<open>!==\<close>: with a class C, the statement \<^verbatim>\<open>if True: C() else: C()\<close>, whose branches
  both have the type of class C, fails with the diagnostic for branches that do not match.
\<close>

theorem if_class_branches_rejected:
  "fst (tc defaultTypeEnv
         \<lparr>inits = [], funs = [],
          classes_of = [\<lparr>cls_name = ''C'', cls_fields = [], cls_methods = [], cls_loc = 1\<rparr>],
          stmts = [SIf 2 (ELiteral 3 (LitBool True))
                     [SExpr 4 (ECall 5 ''C'' [])] [SExpr 6 (ECall 7 ''C'' [])]],
          prog_loc = 0\<rparr>
         loaded)
   = Inl (SyntaxError ''Types of then and else branches must match'' 2)"
  by (simp add: eval_defs)

text \<open>
  C5. The spec has the condition's type failure reported before any failure inside the
  branches or the body. The source checks the branches and the body first:
  \<^verbatim>\<open>while 1: x\<close> with an unbound x fails with the name error for x, not with the
  condition type error.
\<close>

theorem while_body_failure_counterexample:
  "fst (tc defaultTypeEnv
         \<lparr>inits = [], funs = [], classes_of = [],
          stmts = [SWhile 1 (ELiteral 2 (LitNum 1)) [SExpr 3 (EId 4 ''x'')]], prog_loc = 0\<rparr>
         loaded)
   = Inl (NameError ''x'' 4)"
  by (simp add: eval_defs)

text \<open>
  C5, as the code has it: when the condition of an if or while statement type-checks to a
  type other than \<^verbatim>\<open>BOOL\<close> and the branches (none of them empty) or the body type-check
  as well, the statement fails with the condition type error that names the tag of the
  condition's type, at the condition; when the body of the while statement or the first
  branch of the if statement fails, that failure is the one reported.
\<close>

theorem cond_checked_last:
  "(tcExpr env locals cond h = (Inr tCond, h1) \<and> expr_a tCond \<noteq> BOOL
      \<and> tcBlock env locals thn h1 = (Inr tThn, h2) \<and> thn \<noteq> []
      \<and> tcBlock env locals els h2 = (Inr tEls, h3) \<and> els \<noteq> [] \<longrightarrow>
    tcStmt env locals (SIf loc cond thn els) h =
      (Inl (ConditionTypeError (tag (expr_a tCond)) (expr_loc tCond)), h3))
   \<and> (tcExpr env locals cond h = (Inr tCond, h1) \<and> expr_a tCond \<noteq> BOOL
      \<and> tcBlock env locals body h1 = (Inr tBody, h2) \<longrightarrow>
    tcStmt env locals (SWhile loc cond body) h =
      (Inl (ConditionTypeError (tag (expr_a tCond)) (expr_loc tCond)), h2))
   \<and> (tcExpr env locals cond h = (Inr tCond, h1)
      \<and> tcBlock env locals body h1 = (Inl e, h2) \<longrightarrow>
    tcStmt env locals (SWhile loc cond body) h = (Inl e, h2)
    \<and> tcStmt env locals (SIf loc cond body els) h = (Inl e, h2))"
  apply (intro conjI impI)
  subgoal
    apply (elim conjE)
    apply (frule tcBlock_length[of _ _ thn])
    apply (frule tcBlock_length[of _ _ els])
    apply (cases tThn; cases tEls; simp add: monad_defs)
    done
  subgoal by (simp add: monad_defs)
  subgoal by (simp add: monad_defs)
  subgoal by (simp add: monad_defs)
  done

theorem cond_checked_last_witness:
  "tcExpr defaultTypeEnv top_locals (ELiteral 2 (LitNum 1)) entered
     = (Inr (TLiteral NUM 2 (LitNum 1)), entered)
   \<and> expr_a (TLiteral NUM 2 (LitNum 1)) \<noteq> BOOL
   \<and> tcBlock defaultTypeEnv top_locals [SPass 3] entered = (Inr [TPass NONE 3], entered)
   \<and> tcBlock defaultTypeEnv top_locals [SPass 4] entered = (Inr [TPass NONE 4], entered)
   \<and> tcStmt defaultTypeEnv top_locals
       (SIf 1 (ELiteral 2 (LitNum 1)) [SPass 3] [SPass 4]) entered
     = (Inl (ConditionTypeError ''number'' 2), entered)
   \<and> tcStmt defaultTypeEnv top_locals (SWhile 1 (ELiteral 2 (LitNum 1)) [SPass 3]) entered
     = (Inl (ConditionTypeError ''number'' 2), entered)
   \<and> tcBlock defaultTypeEnv top_locals [SExpr 3 (EId 4 ''x'')] entered
     = (Inl (NameError ''x'' 4), entered)
   \<and> tcStmt defaultTypeEnv top_locals
       (SWhile 1 (ELiteral 2 (LitNum 1)) [SExpr 3 (EId 4 ''x'')]) entered
     = (Inl (NameError ''x'' 4), entered)"
proof -
  have c: "tcExpr defaultTypeEnv top_locals (ELiteral 2 (LitNum 1)) entered
     = (Inr (TLiteral NUM 2 (LitNum 1)), entered)"
    by (simp add: ret_def)
  have n: "expr_a (TLiteral NUM 2 (LitNum 1)) \<noteq> BOOL"
    by (simp add: NUM_def BOOL_def)
  have b3: "tcBlock defaultTypeEnv top_locals [SPass 3] entered = (Inr [TPass NONE 3], entered)"
    by (simp add: bnd_def ret_def)
  have b4: "tcBlock defaultTypeEnv top_locals [SPass 4] entered = (Inr [TPass NONE 4], entered)"
    by (simp add: bnd_def ret_def)
  have x: "tcBlock defaultTypeEnv top_locals [SExpr 3 (EId 4 ''x'')] entered
     = (Inl (NameError ''x'' 4), entered)"
    by (simp add: monad_defs entered_def loaded_def defaultTypeEnv_def top_locals_def)
  have t: "tag (expr_a (TLiteral NUM 2 (LitNum 1))) = ''number''"
    by (simp add: tag_def NUM_def)
  from cond_checked_last[where env = defaultTypeEnv and locals = top_locals
         and cond = "ELiteral 2 (LitNum 1)" and h = entered
         and tCond = "TLiteral NUM 2 (LitNum 1)" and ?h1.0 = entered
         and thn = "[SPass 3]" and tThn = "[TPass NONE 3]" and ?h2.0 = entered
         and els = "[SPass 4]" and tEls = "[TPass NONE 4]" and ?h3.0 = entered
         and body = "[SPass 3]" and tBody = "[TPass NONE 3]" and loc = 1]
       c n b3 b4 t
  have s1: "tcStmt defaultTypeEnv top_locals
       (SIf 1 (ELiteral 2 (LitNum 1)) [SPass 3] [SPass 4]) entered
     = (Inl (ConditionTypeError ''number'' 2), entered)"
    and s2: "tcStmt defaultTypeEnv top_locals
       (SWhile 1 (ELiteral 2 (LitNum 1)) [SPass 3]) entered
     = (Inl (ConditionTypeError ''number'' 2), entered)"
    by (simp_all del: tcStmt.simps tcExpr.simps)
  from cond_checked_last[where env = defaultTypeEnv and locals = top_locals
         and cond = "ELiteral 2 (LitNum 1)" and h = entered
         and tCond = "TLiteral NUM 2 (LitNum 1)" and ?h1.0 = entered
         and body = "[SExpr 3 (EId 4 ''x'')]" and e = "NameError ''x'' 4"
         and ?h2.0 = entered and loc = 1]
       c x
  have s3: "tcStmt defaultTypeEnv top_locals
       (SWhile 1 (ELiteral 2 (LitNum 1)) [SExpr 3 (EId 4 ''x'')]) entered
     = (Inl (NameError ''x'' 4), entered)"
    by (simp del: tcStmt.simps tcExpr.simps)
  show ?thesis by (intro conjI c n b3 b4 s1 s2 x s3)
qed




subsection \<open>Assignability and join\<close>

text \<open>
  C6. The spec asks that join of a type with itself is that type. In the source
  \<^verbatim>\<open>join\<close> is a stub that returns \<^verbatim>\<open>NONE\<close> whatever its arguments are, so the join
  of \<^verbatim>\<open>NUM\<close> with itself is not \<^verbatim>\<open>NUM\<close>.
\<close>

theorem join_NUM_counterexample: "join defaultTypeEnv NUM NUM \<noteq> NUM"
  by (simp add: join_def NUM_def NONE_def)

text \<open>
  C6, as the code has it: for every environment and all types, join returns the none
  type; join of a type with itself is that type exactly when the type is \<^verbatim>\<open>NONE\<close>.
\<close>

theorem join_is_NONE: "join env t1 t2 = NONE \<and> (join env t t = t) = (t = NONE)"
  by (auto simp: join_def)

text \<open>
  C7. Assignability is reflexive; the none type is assignable to every class type; and
  these are the only cases: an assignable pair has equal shapes, or goes from none to a
  class. Two type objects of the same shape are assignable whenever they are class types
  or the canonical objects of their primitive type.
\<close>

theorem isAssignable_cases:
  "isAssignable env t t
   \<and> (shape t1 = NoneT \<and> shape t2 = Class c \<longrightarrow> isAssignable env t1 t2)
   \<and> (isAssignable env t1 t2 \<longrightarrow>
        shape t1 = shape t2 \<or> (shape t1 = NoneT \<and> (\<exists>c. shape t2 = Class c)))
   \<and> (canonical t1 \<and> canonical t2 \<and> shape t1 = shape t2 \<longrightarrow> isAssignable env t1 t2)"
  by (cases t1; cases t2)
     (auto simp: isAssignable_def isSubtype_def equalType_def tag_def canonical_def
                 NUM_def BOOL_def NONE_def
           split: Shape.splits)

theorem isAssignable_cases_witness:
  "isAssignable defaultTypeEnv BOOL BOOL
   \<and> shape NONE = NoneT \<and> shape (Obj 9 (Class ''C'')) = Class ''C''
   \<and> isAssignable defaultTypeEnv NONE (Obj 9 (Class ''C''))
   \<and> \<not> isAssignable defaultTypeEnv NUM BOOL
   \<and> \<not> isAssignable defaultTypeEnv (Obj 9 (Class ''C'')) NONE
   \<and> canonical (Obj 8 (Class ''C'')) \<and> canonical (Obj 9 (Class ''C''))
   \<and> isAssignable defaultTypeEnv (Obj 8 (Class ''C'')) (Obj 9 (Class ''C''))"
  using isAssignable_cases [of defaultTypeEnv BOOL NONE "Obj 9 (Class ''C'')" "''C''"]
        isAssignable_cases [of defaultTypeEnv BOOL NUM BOOL "''C''"]
        isAssignable_cases [of defaultTypeEnv BOOL "Obj 9 (Class ''C'')" NONE "''C''"]
        isAssignable_cases [of defaultTypeEnv BOOL "Obj 8 (Class ''C'')"
                               "Obj 9 (Class ''C'')" "''C''"]
  by (simp add: NUM_def BOOL_def NONE_def canonical_def)

subsection \<open>The caller's environment\<close>

text \<open>
  C8. Running the checker never changes the caller's environment, whether it succeeds or
  fails: every object of the store that existed before the call holds afterwards what it
  held before, in particular the three maps of the environment (and the maps of its
  classes); the environment that is returned consists of objects created by the call.
\<close>

theorem tc_never_mutates_env:
  "tc env program h = (r, h') \<Longrightarrow>
   fresh h \<le> fresh h'
   \<and> (\<forall>a<fresh h. tmaps h' a = tmaps h a \<and> fmaps h' a = fmaps h a \<and> cmaps h' a = cmaps h a)
   \<and> (globals env < fresh h \<longrightarrow> tmaps h' (globals env) = tmaps h (globals env))
   \<and> (functions env < fresh h \<longrightarrow> fmaps h' (functions env) = fmaps h (functions env))
   \<and> (classes env < fresh h \<longrightarrow> cmaps h' (classes env) = cmaps h (classes env))
   \<and> (\<forall>tp newEnv. r = Inr (tp, newEnv) \<longrightarrow>
        fresh h \<le> globals newEnv \<and> fresh h \<le> functions newEnv \<and> fresh h \<le> classes newEnv)"
proof -
  assume run: "tc env program h = (r, h')"
  have "kept (fresh h) h h" by (simp add: kept_def)
  with pres_tc[of "fresh h" h env program] run
  have k: "kept (fresh h) h h'"
    and q: "\<And>x. r = Inr x \<Longrightarrow> fresh h \<le> globals (snd x) \<and> fresh h \<le> functions (snd x)
                               \<and> fresh h \<le> classes (snd x)"
    by (auto simp: pres_def dest!: spec[of _ h])
  from k q show ?thesis by (auto simp: kept_def)
qed

theorem tc_never_mutates_env_witness:
  "globals defaultTypeEnv < fresh loaded \<and> functions defaultTypeEnv < fresh loaded
   \<and> classes defaultTypeEnv < fresh loaded
   \<and> fst (tc defaultTypeEnv
            \<lparr>inits = [\<lparr>vi_name = ''x'', vi_type = NUM, vi_value = LitNum 0, vi_loc = 1\<rparr>],
             funs = [], classes_of = [], stmts = [], prog_loc = 0\<rparr> loaded)
      = Inr (\<lparr>tp_a = NONE,
               tp_inits = [\<lparr>tvi_a = NONE,
                             tvi_init = \<lparr>vi_name = ''x'', vi_type = NUM,
                                          vi_value = LitNum 0, vi_loc = 1\<rparr>\<rparr>],
               tp_funs = [], tp_classes = [], tp_stmts = [], tp_loc = 0\<rparr>,
             \<lparr>globals = 8, functions = 9, classes = 10\<rparr>)
   \<and> tmaps (snd (tc defaultTypeEnv
            \<lparr>inits = [\<lparr>vi_name = ''x'', vi_type = NUM, vi_value = LitNum 0, vi_loc = 1\<rparr>],
             funs = [], classes_of = [], stmts = [], prog_loc = 0\<rparr> loaded)) 8 ''x''
      = Some NUM
   \<and> tmaps (snd (tc defaultTypeEnv
            \<lparr>inits = [\<lparr>vi_name = ''x'', vi_type = NUM, vi_value = LitNum 0, vi_loc = 1\<rparr>],
             funs = [], classes_of = [], stmts = [], prog_loc = 0\<rparr> loaded))
        (globals defaultTypeEnv)
      = tmaps loaded (globals defaultTypeEnv)
   \<and> fmaps (snd (tc defaultTypeEnv
            \<lparr>inits = [\<lparr>vi_name = ''x'', vi_type = NUM, vi_value = LitNum 0, vi_loc = 1\<rparr>],
             funs = [], classes_of = [], stmts = [], prog_loc = 0\<rparr> loaded))
        (functions defaultTypeEnv)
      = fmaps loaded (functions defaultTypeEnv)
   \<and> cmaps (snd (tc defaultTypeEnv
            \<lparr>inits = [\<lparr>vi_name = ''x'', vi_type = NUM, vi_value = LitNum 0, vi_loc = 1\<rparr>],
             funs = [], classes_of = [], stmts = [], prog_loc = 0\<rparr> loaded))
        (classes defaultTypeEnv)
      = cmaps loaded (classes defaultTypeEnv)"
proof -
  define P where "P = \<lparr>inits = [\<lparr>vi_name = ''x'', vi_type = NUM, vi_value = LitNum 0,
                                  vi_loc = 1\<rparr>],
                       funs = [], classes_of = [], stmts = [], prog_loc = 0\<rparr>"
  have a: "globals defaultTypeEnv < fresh loaded" "functions defaultTypeEnv < fresh loaded"
    "classes defaultTypeEnv < fresh loaded"
    by (simp_all add: defaultTypeEnv_def loaded_def)
  have r: "fst (tc defaultTypeEnv P loaded)
      = Inr (\<lparr>tp_a = NONE,
               tp_inits = [\<lparr>tvi_a = NONE,
                             tvi_init = \<lparr>vi_name = ''x'', vi_type = NUM,
                                          vi_value = LitNum 0, vi_loc = 1\<rparr>\<rparr>],
               tp_funs = [], tp_classes = [], tp_stmts = [], tp_loc = 0\<rparr>,
             \<lparr>globals = 8, functions = 9, classes = 10\<rparr>)"
    by (simp add: P_def eval_defs)
  have x: "tmaps (snd (tc defaultTypeEnv P loaded)) 8 ''x'' = Some NUM"
    by (simp add: P_def eval_defs)
  from tc_never_mutates_env[where env = defaultTypeEnv and program = P and h = loaded,
         OF surjective_pairing] a
  have "tmaps (snd (tc defaultTypeEnv P loaded)) (globals defaultTypeEnv)
          = tmaps loaded (globals defaultTypeEnv)"
    and "fmaps (snd (tc defaultTypeEnv P loaded)) (functions defaultTypeEnv)
          = fmaps loaded (functions defaultTypeEnv)"
    and "cmaps (snd (tc defaultTypeEnv P loaded)) (classes defaultTypeEnv)
          = cmaps loaded (classes defaultTypeEnv)"
    by simp_all
  with a r x show ?thesis unfolding P_def by simp
qed

subsection \<open>The scenarios of the spec\<close>

text \<open>
  The scenarios of section 8 of the spec, run on the loaded store: assigning a boolean to
  a global of numeric type, looking up an unknown field, \<^verbatim>\<open>print(1)\<close>, a while
  statement with a numeric condition, the identity test of objects of two classes, and
  a return statement at top level.
\<close>

lemma scenario_assign_bool_to_int:
  "fst (tc defaultTypeEnv
         \<lparr>inits = [\<lparr>vi_name = ''a'', vi_type = NUM, vi_value = LitNum 0, vi_loc = 1\<rparr>],
          funs = [], classes_of = [],
          stmts = [SAssign 2 ''a'' (ELiteral 3 (LitBool True))], prog_loc = 0\<rparr>
         loaded)
   = Inl (TypeMismatchError ''number'' ''bool'' 2)"
  by (simp add: eval_defs)

lemma scenario_unknown_field:
  "fst (tc defaultTypeEnv
         \<lparr>inits = [\<lparr>vi_name = ''c'', vi_type = Obj 7 (Class ''C''), vi_value = LitNone,
                     vi_loc = 1\<rparr>],
          funs = [],
          classes_of = [\<lparr>cls_name = ''C'',
                          cls_fields = [\<lparr>vi_name = ''f'', vi_type = NUM, vi_value = LitNum 0,
                                          vi_loc = 3\<rparr>],
                          cls_methods = [], cls_loc = 2\<rparr>],
          stmts = [SAssign 4 ''c'' (ECall 5 ''C'' []), SExpr 6 (ELookup 7 (EId 8 ''c'') ''g'')],
          prog_loc = 0\<rparr>
         (loaded\<lparr>fresh := 8\<rparr>))
   = Inl (AttributeError ''C'' ''g'' 7)"
  by (simp add: eval_defs)

lemma scenario_print:
  "fst (tc defaultTypeEnv
         \<lparr>inits = [], funs = [], classes_of = [],
          stmts = [SExpr 1 (EBuiltin1 2 ''print'' (ELiteral 3 (LitNum 1)))], prog_loc = 0\<rparr>
         loaded)
   = Inr (\<lparr>tp_a = NUM, tp_inits = [], tp_funs = [], tp_classes = [],
            tp_stmts = [TExprStmt NUM 1 (TBuiltin1 NUM 2 ''print'' (TLiteral NUM 3 (LitNum 1)))],
            tp_loc = 0\<rparr>,
          \<lparr>globals = 8, functions = 9, classes = 10\<rparr>)"
  by (simp add: eval_defs)

lemma scenario_while_num:
  "fst (tc defaultTypeEnv
         \<lparr>inits = [], funs = [], classes_of = [],
          stmts = [SWhile 1 (ELiteral 2 (LitNum 1)) [SPass 3]], prog_loc = 0\<rparr>
         loaded)
   = Inl (ConditionTypeError ''number'' 2)"
  by (simp add: eval_defs)

lemma scenario_is:
  "map_sum id (tp_a \<circ> fst) (fst (tc defaultTypeEnv
         \<lparr>inits = [], funs = [],
          classes_of = [\<lparr>cls_name = ''A'', cls_fields = [], cls_methods = [], cls_loc = 1\<rparr>,
                        \<lparr>cls_name = ''B'', cls_fields = [], cls_methods = [], cls_loc = 2\<rparr>],
          stmts = [SExpr 3 (EBinop 4 Is (ECall 5 ''A'' []) (ECall 6 ''B'' []))],
          prog_loc = 0\<rparr>
         loaded))
   = Inr BOOL"
  by (simp add: eval_defs)

lemma scenario_return_top_level:
  "fst (tc defaultTypeEnv
         \<lparr>inits = [], funs = [], classes_of = [],
          stmts = [SReturn 1 (ELiteral 2 (LitNum 1))], prog_loc = 0\<rparr>
         loaded)
   = Inl (SyntaxError ([CHR 0xE2, CHR 0x80, CHR 0x98] @ ''return''
            @ [CHR 0xE2, CHR 0x80, CHR 0x99] @ '' outside of functions'') 1)"
  by (simp add: eval_defs)

end
